theory Spec2Isabelle
  imports Complex_Main
begin

section \<open>Numbers of the source language\<close>

text \<open>
  The service computes with JavaScript numbers, which are IEEE 754 doubles. A number
  is modelled as \<open>NaN\<close>, one of the two infinities, or a real. An arithmetic
  operation on reals computes the exact result and rounds it to the nearest double,
  ties to the even significand; a result that rounds beyond the largest double is an
  infinity. The two zeros are one value: the modelled code never divides by a computed
  zero, and their comparisons, truthiness and decimal renderings agree.

  The binary exponent of a real \<open>x\<close> other than zero is the \<open>e\<close> with
  \<open>2 powi e \<le> \<bar>x\<bar>\<close> and \<open>\<bar>x\<bar> < 2 powi (e + 1)\<close>. It is found by halving a
  magnitude of at least one and by doubling a magnitude below one.
\<close>

datatype jsnum = NaN | PosInf | NegInf | Num real

function expo_up :: "real \<Rightarrow> int" where
  "expo_up x = (if x < 2 then 0 else expo_up (x / 2) + 1)"
  by pat_completeness auto

function expo_down :: "real \<Rightarrow> int" where
  "expo_down x = (if 1 \<le> x \<or> x \<le> 0 then 0 else expo_down (2 * x) - 1)"
  by pat_completeness auto

definition expo :: "real \<Rightarrow> int" where
  "expo x = (if 1 \<le> \<bar>x\<bar> then expo_up \<bar>x\<bar> else expo_down \<bar>x\<bar>)"

text \<open>Rounding to the nearest integer, a tie going to the even one.\<close>

definition rne :: "real \<Rightarrow> int" where
  "rne m = (let f = \<lfloor>m\<rfloor> in
            if m - of_int f < 1 / 2 then f
            else if 1 / 2 < m - of_int f then f + 1
            else if even f then f else f + 1)"

text \<open>The spacing of the doubles around \<open>x\<close>: a significand of 53 bits, and the
  least exponent \<open>-1022\<close>, below which the spacing stays that of the subnormal
  numbers.\<close>

definition quantum :: "real \<Rightarrow> real" where
  "quantum x = 2 powi (max (expo x) (- 1022) - 52)"

definition nearest :: "real \<Rightarrow> real" where
  "nearest x = (if x = 0 then 0 else of_int (rne (x / quantum x)) * quantum x)"

text \<open>The least power of two that is beyond every double.\<close>

definition huge :: real where
  "huge = 2 powi 1024"

text \<open>The double that an exact result is rounded to.\<close>

definition fl :: "real \<Rightarrow> jsnum" where
  "fl x = (let y = nearest x in
           if huge \<le> y then PosInf
           else if y \<le> - huge then NegInf
           else Num y)"

fun js_add :: "jsnum \<Rightarrow> jsnum \<Rightarrow> jsnum" where
  "js_add (Num a) (Num b) = fl (a + b)"
| "js_add NaN b = NaN"
| "js_add a NaN = NaN"
| "js_add PosInf NegInf = NaN"
| "js_add NegInf PosInf = NaN"
| "js_add PosInf b = PosInf"
| "js_add NegInf b = NegInf"
| "js_add (Num a) b = b"

fun js_neg :: "jsnum \<Rightarrow> jsnum" where
  "js_neg (Num a) = Num (- a)"
| "js_neg PosInf = NegInf"
| "js_neg NegInf = PosInf"
| "js_neg NaN = NaN"

fun js_sub :: "jsnum \<Rightarrow> jsnum \<Rightarrow> jsnum" where
  "js_sub (Num a) (Num b) = fl (a - b)"
| "js_sub a b = js_add a (js_neg b)"

fun js_mul :: "jsnum \<Rightarrow> jsnum \<Rightarrow> jsnum" where
  "js_mul (Num a) (Num b) = fl (a * b)"
| "js_mul NaN b = NaN"
| "js_mul a NaN = NaN"
| "js_mul (Num a) b =
     (if a = 0 then NaN else if 0 < a then b else js_neg b)"
| "js_mul a (Num b) =
     (if b = 0 then NaN else if 0 < b then a else js_neg a)"
| "js_mul PosInf b = b"
| "js_mul NegInf b = js_neg b"

text \<open>Division by a constant or by the length of an array: a divisor that is a
  double and not negative (a zero divisor is the positive zero).\<close>

fun js_div :: "jsnum \<Rightarrow> real \<Rightarrow> jsnum" where
  "js_div (Num a) d =
     (if d = 0 then (if a = 0 then NaN else if 0 < a then PosInf else NegInf)
      else fl (a / d))"
| "js_div NaN d = NaN"
| "js_div PosInf d = (if 0 \<le> d then PosInf else NegInf)"
| "js_div NegInf d = (if 0 \<le> d then NegInf else PosInf)"

fun js_gt :: "jsnum \<Rightarrow> real \<Rightarrow> bool" where
  "js_gt (Num a) b = (a > b)"
| "js_gt PosInf b = True"
| "js_gt NegInf b = False"
| "js_gt NaN b = False"

fun js_lt :: "jsnum \<Rightarrow> real \<Rightarrow> bool" where
  "js_lt (Num a) b = (a < b)"
| "js_lt NegInf b = True"
| "js_lt PosInf b = False"
| "js_lt NaN b = False"

text \<open>A number that is at most, or at least, a real bound (an infinity of the right
  sign included).\<close>

fun at_most :: "jsnum \<Rightarrow> real \<Rightarrow> bool" where
  "at_most NegInf c = True"
| "at_most (Num a) c = (a \<le> c)"
| "at_most _ c = False"

fun at_least :: "jsnum \<Rightarrow> real \<Rightarrow> bool" where
  "at_least PosInf c = True"
| "at_least (Num a) c = (c \<le> a)"
| "at_least _ c = False"

text \<open>
  Dates. \<open>new Date(v)\<close> holds the time value of the number \<open>v\<close>: no time
  (\<open>NaN\<close>) when \<open>v\<close> is not finite or lies more than \<open>8.64 \<times> 10\<^sup>1\<^sup>5\<close>
  milliseconds from the epoch, and \<open>v\<close> without its fraction otherwise.
\<close>

fun time_clip :: "jsnum \<Rightarrow> jsnum" where
  "time_clip (Num v) =
     (if \<bar>v\<bar> \<le> 8640000000000000 then Num (of_int (if 0 \<le> v then \<lfloor>v\<rfloor> else \<lceil>v\<rceil>))
      else NaN)"
| "time_clip v = NaN"

text \<open>A string that holds a date: \<open>Iso t\<close> is the rendering of the time value
  \<open>t\<close> by \<open>toISOString\<close>, from which \<open>new Date(s).getTime()\<close> reads
  \<open>t\<close> back; \<open>Text s\<close> is any other string.\<close>

datatype datestring = Iso int | Text string

text \<open>\<open>new Date(v).toISOString()\<close>, which raises a \<open>RangeError\<close>
  (\<open>None\<close>) for a date without a time value.\<close>

definition toISOString :: "jsnum \<Rightarrow> datestring option" where
  "toISOString v = (case time_clip v of Num t \<Rightarrow> Some (Iso \<lfloor>t\<rfloor>) | _ \<Rightarrow> None)"

section \<open>Data model of cryptoWalletInvestigationService.ts\<close>

text \<open>
  The records keep the fields that the modelled functions read or write. A field that
  the source stores as the decimal rendering of a number (\<open>balance\<close>,
  \<open>value\<close>, \<open>totalVolume\<close>) is represented by that number, which is what
  \<open>parseFloat\<close> reads back from it. \<open>tx_timestamp\<close> is the number that
  \<open>new Date(tx.timestamp).getTime()\<close> yields: a whole number of milliseconds,
  or \<open>NaN\<close> for a string that holds no date. The opaque \<open>metadata\<close>
  objects are left out.
\<close>

datatype RiskLevel = Critical | High | Medium | Low | Safe

record CryptoWalletInfo =
  address :: string
  network :: string
  balance :: jsnum
  balanceUSD :: jsnum
  totalReceived :: jsnum
  totalSent :: jsnum
  transactionCount :: jsnum
  firstSeen :: datestring
  lastSeen :: datestring
  labels :: "string list"
  isExchange :: bool
  isMixer :: bool
  isRansomware :: bool
  riskScore :: jsnum
  riskLevel :: RiskLevel

record TransactionInput =
  in_address :: string
  in_value :: jsnum

record TransactionOutput =
  out_address :: string
  out_value :: jsnum

record CryptoTransaction =
  tx_hash :: string
  tx_timestamp :: jsnum
  tx_value :: jsnum
  tx_inputs :: "TransactionInput list"
  tx_outputs :: "TransactionOutput list"

section \<open>Analysis helpers\<close>

text \<open>\<open>transactions.reduce((sum, tx) => sum + parseFloat(tx.value), 0)\<close>\<close>

definition total_value :: "CryptoTransaction list \<Rightarrow> jsnum" where
  "total_value transactions = foldl (\<lambda>sum tx. js_add sum (tx_value tx)) (Num 0) transactions"

definition analyzeBehaviorPattern :: "CryptoTransaction list \<Rightarrow> string" where
  "analyzeBehaviorPattern transactions =
     (if length transactions = 0 then ''No transaction history''
      else
        let avgValue = js_div (total_value transactions) (real (length transactions));
            frequency = length transactions
        in if frequency > 100 \<and> js_gt avgValue 1
           then ''High-frequency, high-value transactions - Possible exchange or business''
           else if frequency > 50 then ''Active wallet with regular transactions''
           else if frequency < 10 then ''Low activity wallet - Possibly dormant or new''
           else ''Normal transaction pattern'')"

definition analyzeVolume :: "CryptoTransaction list \<Rightarrow> string" where
  "analyzeVolume transactions =
     (if length transactions = 0 then ''No volume data''
      else
        let totalVolume = total_value transactions
        in if js_gt totalVolume 1000 then ''Very high volume - Major player or institutional''
           else if js_gt totalVolume 100 then ''High volume - Active trader or business''
           else if js_gt totalVolume 10 then ''Moderate volume - Regular user''
           else ''Low volume - Casual user'')"

text \<open>The loop \<open>for (let i = 1; i < timestamps.length; i++)
  intervals.push(timestamps[i - 1] - timestamps[i])\<close>.\<close>

definition intervals_of :: "jsnum list \<Rightarrow> jsnum list" where
  "intervals_of timestamps =
     map (\<lambda>i. js_sub (timestamps ! (i - 1)) (timestamps ! i)) [1 ..< length timestamps]"

definition analyzeFrequency :: "CryptoTransaction list \<Rightarrow> string" where
  "analyzeFrequency transactions =
     (if length transactions < 2 then ''Insufficient data''
      else
        let timestamps = map tx_timestamp transactions;
            intervals = intervals_of timestamps;
            avgInterval = js_div (foldl js_add (Num 0) intervals) (real (length intervals));
            days = js_div avgInterval (1000 * 60 * 60 * 24)
        in if js_lt days 1 then ''Multiple transactions per day - Very active''
           else if js_lt days 7 then ''Weekly transaction pattern''
           else if js_lt days 30 then ''Monthly transaction pattern''
           else ''Infrequent transactions'')"

definition identifyRiskFactors :: "CryptoWalletInfo \<Rightarrow> CryptoTransaction list \<Rightarrow> string list" where
  "identifyRiskFactors wallet transactions =
     (if isRansomware wallet then [''Associated with ransomware activities''] else []) @
     (if isMixer wallet then [''Connected to mixing services''] else []) @
     (if isExchange wallet then [''Exchange wallet - high volume expected''] else []) @
     (if js_gt (balance wallet) 100 then [''High balance - attractive target''] else []) @
     (if length transactions > 100 then [''High transaction count''] else [])"

definition generateRecommendations :: "CryptoWalletInfo \<Rightarrow> CryptoTransaction list \<Rightarrow> string list" where
  "generateRecommendations wallet transactions =
     (if js_gt (riskScore wallet) 70
      then [''High risk - Investigate further before interaction''] else []) @
     (if isMixer wallet
      then [''Avoid direct transactions - potential money laundering''] else []) @
     (if isRansomware wallet
      then [''Report to authorities - known criminal activity''] else []) @
     (if length transactions = 0
      then [''New or unused wallet - verify legitimacy''] else [])"

section \<open>The outside world: explorer services and the response cache\<close>

text \<open>
  A request to an explorer either throws (\<open>fetch\<close> or \<open>response.json()\<close>
  raises), answers with a status for which \<open>response.ok\<close> is false, or answers
  with a body. The bodies keep the fields the adapters read; a numeric field that is
  absent from the JSON is \<open>NaN\<close> (what arithmetic on \<open>undefined\<close> gives),
  and a number of the JSON text is the double nearest to it. The arrays \<open>txs\<close>,
  \<open>inputs\<close> and \<open>out\<close> of a body are lists (an absent \<open>txs\<close> is
  the empty list, which leads both adapters to the same results).
\<close>

datatype 'a http = Threw | NotOk nat | Ok 'a

record rawaddr_input =
  prev_out_addr :: "string option"
  prev_out_value :: jsnum

record rawaddr_out =
  raw_addr :: "string option"
  raw_value :: jsnum

record rawaddr_tx =
  raw_hash :: string
  raw_time :: jsnum
  raw_inputs :: "rawaddr_input list"
  raw_out :: "rawaddr_out list"

record rawaddr_body =
  final_balance :: jsnum
  total_received :: jsnum
  total_sent :: jsnum
  n_tx :: jsnum
  raw_txs :: "rawaddr_tx list"

record blockchair_address =
  bc_balance :: jsnum
  bc_balance_usd :: jsnum
  bc_received :: jsnum
  bc_spent :: jsnum
  bc_transaction_count :: jsnum
  first_seen_receiving :: "string option"
  last_seen_receiving :: "string option"

record ethplorer_body =
  eth_balance :: "jsnum option"
  eth_rate :: "jsnum option"
  countTxs :: jsnum

text \<open>
  The explorers are a parameter of every operation. Their answer may depend on the
  address asked for and on the moment of asking: the requests of a run are numbered
  from \<open>0\<close>, and \<open>latency\<close> is the time in milliseconds that the request
  with a given number takes. \<open>blockchair\<close> answers with \<open>data.data?.[address]\<close>, which
  is \<open>None\<close> when the body has no entry for the address.
\<close>

record net =
  rawaddr :: "nat \<Rightarrow> string \<Rightarrow> nat \<Rightarrow> rawaddr_body http"
  blockchair :: "nat \<Rightarrow> string \<Rightarrow> blockchair_address option http"
  ethplorer :: "nat \<Rightarrow> string \<Rightarrow> ethplorer_body http"
  latency :: "nat \<Rightarrow> nat"

text \<open>
  The state that the service reads and writes: the number of requests issued so far,
  the clock (\<open>Date.now()\<close>, in milliseconds), and the response cache. The keys under which wallets and transaction
  lists are stored start with different prefixes, so the cache is split by the type
  of the stored value. Each entry carries its expiry time.
\<close>

record world =
  requests :: nat
  now :: nat
  walletCache :: "string \<Rightarrow> (CryptoWalletInfo \<times> nat) option"
  txsCache :: "string \<Rightarrow> (CryptoTransaction list \<times> nat) option"

definition CACHE_TTL :: nat where
  "CACHE_TTL = 10"

text \<open>
  Modelled from the spec: the functions \<open>getCachedData\<close> and
  \<open>cacheAPIResponse\<close> of the module \<open>@/lib/database\<close> are imported by the
  service, and their source is missing. The spec describes them as a key/value store
  with a time-to-live per entry: \<open>get(key)\<close> gives the value or a miss,
  \<open>put(key, value, ttl)\<close> stores it, and an entry is invisible once past its expiry.
  The service counts the time-to-live in minutes (the comment on \<open>CACHE_TTL\<close>).
\<close>

definition cache_get :: "(string \<Rightarrow> ('v \<times> nat) option) \<Rightarrow> nat \<Rightarrow> string \<Rightarrow> 'v option" where
  "cache_get c t key =
     (case c key of
        None \<Rightarrow> None
      | Some (v, expiry) \<Rightarrow> if t \<le> expiry then Some v else None)"

definition cache_put ::
  "(string \<Rightarrow> ('v \<times> nat) option) \<Rightarrow> nat \<Rightarrow> string \<Rightarrow> 'v \<Rightarrow> nat \<Rightarrow> (string \<Rightarrow> ('v \<times> nat) option)" where
  "cache_put c t key v ttl = c(key \<mapsto> (v, t + ttl * 60000))"

definition getCachedWallet :: "string \<Rightarrow> world \<Rightarrow> CryptoWalletInfo option" where
  "getCachedWallet key w = cache_get (walletCache w) (now w) key"

definition cacheWallet :: "string \<Rightarrow> CryptoWalletInfo \<Rightarrow> nat \<Rightarrow> world \<Rightarrow> world" where
  "cacheWallet key v ttl w = w\<lparr>walletCache := cache_put (walletCache w) (now w) key v ttl\<rparr>"

definition getCachedTxs :: "string \<Rightarrow> world \<Rightarrow> CryptoTransaction list option" where
  "getCachedTxs key w = cache_get (txsCache w) (now w) key"

definition cacheTxs :: "string \<Rightarrow> CryptoTransaction list \<Rightarrow> nat \<Rightarrow> world \<Rightarrow> world" where
  "cacheTxs key v ttl w = w\<lparr>txsCache := cache_put (txsCache w) (now w) key v ttl\<rparr>"

text \<open>Issuing a request: it gets the next number, and the clock advances.\<close>

definition issue :: "net \<Rightarrow> world \<Rightarrow> world" where
  "issue nt w = w\<lparr>requests := requests w + 1, now := now w + latency nt (requests w)\<rparr>"

definition fetch_rawaddr :: "net \<Rightarrow> string \<Rightarrow> nat \<Rightarrow> world \<Rightarrow> rawaddr_body http \<times> world" where
  "fetch_rawaddr nt addr limit w = (rawaddr nt (requests w) addr limit, issue nt w)"

definition fetch_blockchair :: "net \<Rightarrow> string \<Rightarrow> world \<Rightarrow> blockchair_address option http \<times> world" where
  "fetch_blockchair nt addr w = (blockchair nt (requests w) addr, issue nt w)"

definition fetch_ethplorer :: "net \<Rightarrow> string \<Rightarrow> world \<Rightarrow> ethplorer_body http \<times> world" where
  "fetch_ethplorer nt addr w = (ethplorer nt (requests w) addr, issue nt w)"

section \<open>Blockchain API functions\<close>

text \<open>\<open>x || 0\<close> on a number: \<open>NaN\<close> (and an absent field) gives \<open>0\<close>.\<close>

fun or_zero :: "jsnum \<Rightarrow> jsnum" where
  "or_zero NaN = Num 0"
| "or_zero v = v"

text \<open>\<open>x || 'Unknown'\<close> on a string field: absent and empty strings give the
  placeholder.\<close>

fun or_unknown :: "string option \<Rightarrow> string" where
  "or_unknown None = ''Unknown''"
| "or_unknown (Some a) = (if a = [] then ''Unknown'' else a)"

text \<open>A number that is truthy: neither absent, nor \<open>NaN\<close>, nor zero.\<close>

fun truthy :: "jsnum option \<Rightarrow> bool" where
  "truthy None = False"
| "truthy (Some NaN) = False"
| "truthy (Some (Num a)) = (a \<noteq> 0)"
| "truthy (Some v) = True"

text \<open>\<open>data.txs?.[i]?.time * 1000 || Date.now()\<close>: the time of a transaction
  of the body in milliseconds, and the clock when the body has no such transaction or
  the product is \<open>NaN\<close> or zero.\<close>

definition seen_time :: "rawaddr_tx option \<Rightarrow> world \<Rightarrow> jsnum" where
  "seen_time tx w =
     (let t = (case tx of None \<Rightarrow> NaN | Some x \<Rightarrow> js_mul (raw_time x) (Num 1000))
      in if truthy (Some t) then t else Num (real (now w)))"

text \<open>The object that the first \<open>try\<close> block of \<open>getBitcoinWalletInfo\<close>
  returns for a response of blockchain.info that arrived in the world \<open>w\<close>;
  \<open>None\<close> when control leaves the block without a \<open>return\<close>: the request
  threw, the status was not \<open>ok\<close>, or one of the two dates raised.\<close>

definition blockchain_info_wallet ::
  "string \<Rightarrow> rawaddr_body http \<Rightarrow> world \<Rightarrow> CryptoWalletInfo option" where
  "blockchain_info_wallet addr r w =
     (case r of
        Ok data \<Rightarrow>
          (case toISOString (seen_time (if raw_txs data = [] then None
                                        else Some (last (raw_txs data))) w) of
             None \<Rightarrow> None
           | Some seenFirst \<Rightarrow>
               (case toISOString (seen_time (case raw_txs data of [] \<Rightarrow> None
                                                               | tx # _ \<Rightarrow> Some tx) w) of
                  None \<Rightarrow> None
                | Some seenLast \<Rightarrow>
                    Some \<lparr>address = addr, network = ''bitcoin'',
                          balance = js_div (final_balance data) 100000000,
                          balanceUSD = Num 0,
                          totalReceived = js_div (total_received data) 100000000,
                          totalSent = js_div (total_sent data) 100000000,
                          transactionCount = n_tx data,
                          firstSeen = seenFirst, lastSeen = seenLast,
                          labels = [], isExchange = False, isMixer = False,
                          isRansomware = False,
                          riskScore = Num 0, riskLevel = Safe\<rparr>))
      | _ \<Rightarrow> None)"

text \<open>\<open>s || ''\<close> on a string field that may be absent.\<close>

fun or_empty :: "string option \<Rightarrow> string" where
  "or_empty None = []"
| "or_empty (Some s) = s"

text \<open>\<open>getBitcoinWalletInfo\<close>: blockchain.info first, blockchair as the fallback;
  \<open>None\<close> is the \<open>Error\<close> thrown when both fail.\<close>

definition getBitcoinWalletInfo :: "net \<Rightarrow> string \<Rightarrow> world \<Rightarrow> CryptoWalletInfo option \<times> world" where
  "getBitcoinWalletInfo nt addr w =
     (case fetch_rawaddr nt addr 0 w of
        (r, w1) \<Rightarrow>
          (case blockchain_info_wallet addr r w1 of
             Some wallet \<Rightarrow> (Some wallet, w1)
           | None \<Rightarrow>
               (case fetch_blockchair nt addr w1 of
                  (Ok (Some addrData), w2) \<Rightarrow>
                    (Some \<lparr>address = addr, network = ''bitcoin'',
                           balance = js_div (bc_balance addrData) 100000000,
                           balanceUSD = or_zero (bc_balance_usd addrData),
                           totalReceived = js_div (bc_received addrData) 100000000,
                           totalSent = js_div (bc_spent addrData) 100000000,
                           transactionCount = bc_transaction_count addrData,
                           firstSeen = Text (or_empty (first_seen_receiving addrData)),
                           lastSeen = Text (or_empty (last_seen_receiving addrData)),
                           labels = [], isExchange = False, isMixer = False,
                           isRansomware = False,
                           riskScore = Num 0, riskLevel = Safe\<rparr>, w2)
                | (_, w2) \<Rightarrow> (None, w2))))"

definition getEthereumWalletInfo :: "net \<Rightarrow> string \<Rightarrow> world \<Rightarrow> CryptoWalletInfo option \<times> world" where
  "getEthereumWalletInfo nt addr w =
     (case fetch_ethplorer nt addr w of
        (Ok data, w1) \<Rightarrow>
          (Some \<lparr>address = addr, network = ''ethereum'',
                 balance = (if truthy (eth_balance data) then the (eth_balance data) else Num 0),
                 balanceUSD = (if truthy (eth_rate data)
                               then js_mul (case eth_balance data of None \<Rightarrow> NaN | Some b \<Rightarrow> b)
                                           (the (eth_rate data))
                               else Num 0),
                 totalReceived = Num 0,
                 totalSent = Num 0,
                 transactionCount = or_zero (countTxs data),
                 firstSeen = Text [], lastSeen = Text [],
                 labels = [], isExchange = False, isMixer = False, isRansomware = False,
                 riskScore = Num 0, riskLevel = Safe\<rparr>, w1)
      | (_, w1) \<Rightarrow> (None, w1))"

text \<open>\<open>getWalletInfo(address, network)\<close>: the cache first; then the adapter of
  the network, whose error is caught and turned into \<open>null\<close>; a network other than
  bitcoin and ethereum gives \<open>null\<close> without a request. A wallet that was fetched
  is stored in the cache.\<close>

definition getWalletInfo :: "net \<Rightarrow> string \<Rightarrow> string \<Rightarrow> world \<Rightarrow> CryptoWalletInfo option \<times> world" where
  "getWalletInfo nt addr netw w =
     (let cacheKey = ''wallet_info_'' @ netw @ ''_'' @ addr in
      case getCachedWallet cacheKey w of
        Some cached \<Rightarrow> (Some cached, w)
      | None \<Rightarrow>
          (case (if netw = ''bitcoin'' then getBitcoinWalletInfo nt addr w
                 else if netw = ''ethereum'' then getEthereumWalletInfo nt addr w
                 else (None, w)) of
             (Some walletInfo, w1) \<Rightarrow> (Some walletInfo, cacheWallet cacheKey walletInfo CACHE_TTL w1)
           | (None, w1) \<Rightarrow> (None, w1)))"

text \<open>The object that the callback of \<open>data.txs.map\<close> builds for one
  transaction of a \<open>rawaddr\<close> body; \<open>None\<close> when
  \<open>new Date(tx.time * 1000).toISOString()\<close> raises. The timestamp is the time
  value of the rendered date, so it carries no fraction of a millisecond.\<close>

definition normalize_tx :: "rawaddr_tx \<Rightarrow> CryptoTransaction option" where
  "normalize_tx tx =
     (let inputs = map (\<lambda>input. \<lparr>in_address = or_unknown (prev_out_addr input),
                                  in_value = js_div (prev_out_value input) 100000000\<rparr>)
                       (raw_inputs tx);
          outputs = map (\<lambda>output. \<lparr>out_address = or_unknown (raw_addr output),
                                    out_value = js_div (raw_value output) 100000000\<rparr>)
                        (raw_out tx)
      in case toISOString (js_mul (raw_time tx) (Num 1000)) of
           Some (Iso t) \<Rightarrow>
             Some \<lparr>tx_hash = raw_hash tx,
                   tx_timestamp = Num (of_int t),
                   tx_value = foldl (\<lambda>sum out. js_add sum (out_value out)) (Num 0) outputs,
                   tx_inputs = inputs,
                   tx_outputs = outputs\<rparr>
         | _ \<Rightarrow> None)"

text \<open>\<open>getBitcoinWalletTransactions\<close>: every failure gives the empty list. That
  includes a transaction whose time has no date (absent, not finite, or out of the
  range of dates), for which the callback raises inside the \<open>try\<close> block.\<close>

definition getBitcoinWalletTransactions ::
  "net \<Rightarrow> string \<Rightarrow> nat \<Rightarrow> world \<Rightarrow> CryptoTransaction list \<times> world" where
  "getBitcoinWalletTransactions nt addr limit w =
     (case fetch_rawaddr nt addr limit w of
        (Ok data, w1) \<Rightarrow>
          (if list_all (\<lambda>tx. normalize_tx tx \<noteq> None) (raw_txs data)
           then (map (\<lambda>tx. the (normalize_tx tx)) (raw_txs data), w1)
           else ([], w1))
      | (_, w1) \<Rightarrow> ([], w1))"

definition getEthereumWalletTransactions ::
  "net \<Rightarrow> string \<Rightarrow> nat \<Rightarrow> world \<Rightarrow> CryptoTransaction list \<times> world" where
  "getEthereumWalletTransactions nt addr limit w = ([], w)"

text \<open>The decimal rendering of the limit, which is part of the cache key.\<close>

fun string_of_nat :: "nat \<Rightarrow> string" where
  "string_of_nat n =
     (if n < 10 then [char_of (48 + n)]
      else string_of_nat (n div 10) @ [char_of (48 + n mod 10)])"

definition getWalletTransactions ::
  "net \<Rightarrow> string \<Rightarrow> string \<Rightarrow> nat \<Rightarrow> world \<Rightarrow> CryptoTransaction list \<times> world" where
  "getWalletTransactions nt addr netw limit w =
     (let cacheKey = ''wallet_txs_'' @ netw @ ''_'' @ addr @ ''_'' @ string_of_nat limit in
      case getCachedTxs cacheKey w of
        Some cached \<Rightarrow> (cached, w)
      | None \<Rightarrow>
          (case (if netw = ''bitcoin'' then getBitcoinWalletTransactions nt addr limit w
                 else if netw = ''ethereum'' then getEthereumWalletTransactions nt addr limit w
                 else ([], w)) of
             (transactions, w1) \<Rightarrow>
               (transactions,
                if length transactions > 0 then cacheTxs cacheKey transactions CACHE_TTL w1
                else w1)))"

section \<open>The wallet connection graph\<close>

datatype NodeType = WalletNode | ExchangeNode | MixerNode | ContractNode | UnknownNode

datatype Direction = Outgoing | Incoming | Bidirectional

record GraphNode =
  node_id :: string
  node_address :: string
  node_label :: string
  node_type :: NodeType
  node_balance :: jsnum
  node_transactionCount :: jsnum
  node_riskScore :: jsnum
  node_riskLevel :: RiskLevel

record GraphEdge =
  edge_id :: string
  source :: string
  target :: string
  transactions :: nat
  totalVolume :: jsnum
  totalVolumeUSD :: jsnum
  firstTx :: string
  lastTx :: string
  direction :: Direction

record WalletCluster =
  cluster_id :: string
  cluster_addresses :: "string list"

record WalletGraph =
  nodes :: "GraphNode list"
  edges :: "GraphEdge list"
  clusters :: "WalletCluster list"

text \<open>The node pushed for an address whose wallet was fetched; the label is
  \<open>a.substring(0, 8) + '...' + a.substring(a.length - 6)\<close>, and \<open>substring\<close>
  reads a negative start as \<open>0\<close>.\<close>

definition make_node :: "string \<Rightarrow> CryptoWalletInfo \<Rightarrow> GraphNode" where
  "make_node a wallet =
     \<lparr>node_id = a, node_address = a,
      node_label = take 8 a @ ''...'' @ drop (length a - 6) a,
      node_type = (if isExchange wallet then ExchangeNode
                   else if isMixer wallet then MixerNode else WalletNode),
      node_balance = balance wallet,
      node_transactionCount = transactionCount wallet,
      node_riskScore = riskScore wallet,
      node_riskLevel = riskLevel wallet\<rparr>"

text \<open>The value of the map \<open>connections\<close>, which is kept as an association list
  in insertion order (the order in which a JavaScript \<open>Map\<close> is iterated).\<close>

record connection =
  conn_count :: nat
  conn_volume :: jsnum
  txHashes :: "string list"

text \<open>\<open>Set.add\<close> on a set kept in insertion order.\<close>

definition set_add :: "'a list \<Rightarrow> 'a \<Rightarrow> 'a list" where
  "set_add s x = (if x \<in> set s then s else s @ [x])"

text \<open>\<open>Map.set\<close>: a known key keeps its place, a new key goes last.\<close>

fun map_set :: "('k \<times> 'v) list \<Rightarrow> 'k \<Rightarrow> 'v \<Rightarrow> ('k \<times> 'v) list" where
  "map_set [] k v = [(k, v)]"
| "map_set ((k', v') # m) k v = (if k' = k then (k, v) # m else (k', v') # map_set m k v)"

text \<open>The addresses a transaction connects the expanded address with: inputs first,
  then outputs, without the address itself and without the placeholder.\<close>

definition connectedAddresses :: "string \<Rightarrow> CryptoTransaction \<Rightarrow> string list" where
  "connectedAddresses a tx =
     (let senders = foldl (\<lambda>s input.
                       if in_address input \<noteq> a \<and> in_address input \<noteq> ''Unknown''
                       then set_add s (in_address input) else s) [] (tx_inputs tx)
      in foldl (\<lambda>s output.
                  if out_address output \<noteq> a \<and> out_address output \<noteq> ''Unknown''
                  then set_add s (out_address output) else s) senders (tx_outputs tx))"

definition track_connection ::
  "CryptoTransaction \<Rightarrow> (string \<times> connection) list \<Rightarrow> string \<Rightarrow> (string \<times> connection) list" where
  "track_connection tx connections connAddr =
     (let existing = (case map_of connections connAddr of
                        Some e \<Rightarrow> e
                      | None \<Rightarrow> \<lparr>conn_count = 0, conn_volume = Num 0, txHashes = []\<rparr>)
      in map_set connections connAddr
           \<lparr>conn_count = conn_count existing + 1,
            conn_volume = js_add (conn_volume existing) (tx_value tx),
            txHashes = txHashes existing @ [tx_hash tx]\<rparr>)"

text \<open>The loop \<open>for (const tx of transactions)\<close>.\<close>

definition analyze_transactions :: "string \<Rightarrow> CryptoTransaction list \<Rightarrow> (string \<times> connection) list" where
  "analyze_transactions a txs =
     foldl (\<lambda>connections tx. foldl (track_connection tx) connections (connectedAddresses a tx))
           [] txs"

definition make_edge :: "string \<Rightarrow> string \<Rightarrow> connection \<Rightarrow> GraphEdge" where
  "make_edge a connAddr d =
     \<lparr>edge_id = a @ ''-'' @ connAddr,
      source = a,
      target = connAddr,
      transactions = conn_count d,
      totalVolume = conn_volume d,
      totalVolumeUSD = Num 0,
      firstTx = (case txHashes d of [] \<Rightarrow> [] | h # _ \<Rightarrow> h),
      lastTx = (if txHashes d = [] then [] else last (txHashes d)),
      direction = Bidirectional\<rparr>"

text \<open>The local variables of \<open>buildWalletGraph\<close>.\<close>

record build =
  st_nodes :: "GraphNode list"
  st_edges :: "GraphEdge list"
  st_visited :: "string set"
  st_queue :: "(string \<times> nat) list"

text \<open>The loop over the first ten entries of \<open>connections\<close>: an address that is not
  visited is fetched and, when the fetch gives a wallet, becomes a node and joins the
  queue; the edge is pushed in every case.\<close>

fun add_connections ::
  "net \<Rightarrow> string \<Rightarrow> string \<Rightarrow> nat \<Rightarrow> (string \<times> connection) list \<Rightarrow> build \<times> world \<Rightarrow> build \<times> world" where
  "add_connections nt netw a level [] (s, w) = (s, w)"
| "add_connections nt netw a level ((connAddr, d) # rest) (s, w) =
     (let (s1, w1) =
            (if connAddr \<notin> st_visited s then
               (case getWalletInfo nt connAddr netw w of
                  (Some connWallet, w') \<Rightarrow>
                    (s\<lparr>st_nodes := st_nodes s @ [make_node connAddr connWallet],
                       st_visited := insert connAddr (st_visited s),
                       st_queue := st_queue s @ [(connAddr, level + 1)]\<rparr>, w')
                | (None, w') \<Rightarrow> (s, w'))
             else (s, w))
      in add_connections nt netw a level rest
           (s1\<lparr>st_edges := st_edges s1 @ [make_edge a connAddr d]\<rparr>, w1))"

text \<open>One pass through the body of the \<open>while\<close> loop, for a queue that is not
  empty: \<open>queue.shift()\<close>, the test of the level against the depth
  (\<open>continue\<close>), the transactions of the address, and the connections.\<close>

definition expand :: "net \<Rightarrow> string \<Rightarrow> int \<Rightarrow> build \<times> world \<Rightarrow> build \<times> world" where
  "expand nt netw depth sw =
     (case sw of (s, w) \<Rightarrow>
        (case st_queue s of
           [] \<Rightarrow> (s, w)
         | (a, level) # rest \<Rightarrow>
             if int level \<ge> depth then (s\<lparr>st_queue := rest\<rparr>, w)
             else
               (case getWalletTransactions nt a netw 20 w of
                  (txs, w1) \<Rightarrow>
                    add_connections nt netw a level
                      (take 10 (analyze_transactions a txs))
                      (s\<lparr>st_queue := rest\<rparr>, w1))))"

text \<open>\<open>while (queue.length > 0 && nodes.length < maxNodes)\<close>\<close>

function bfs :: "net \<Rightarrow> string \<Rightarrow> int \<Rightarrow> int \<Rightarrow> build \<times> world \<Rightarrow> build \<times> world" where
  "bfs nt netw depth maxNodes sw =
     (if st_queue (fst sw) \<noteq> [] \<and> int (length (st_nodes (fst sw))) < maxNodes
      then bfs nt netw depth maxNodes (expand nt netw depth sw)
      else sw)"
  by pat_completeness auto

definition buildWalletGraph ::
  "net \<Rightarrow> string \<Rightarrow> string \<Rightarrow> int \<Rightarrow> int \<Rightarrow> world \<Rightarrow> WalletGraph \<times> world" where
  "buildWalletGraph nt rootAddress netw depth maxNodes w =
     (case getWalletInfo nt rootAddress netw w of
        (rootWallet, w1) \<Rightarrow>
          (let s0 = \<lparr>st_nodes = [], st_edges = [], st_visited = {},
                     st_queue = [(rootAddress, 0)]\<rparr>;
               s1 = (case rootWallet of
                       Some rw \<Rightarrow> s0\<lparr>st_nodes := [make_node rootAddress rw],
                                       st_visited := {rootAddress}\<rparr>
                     | None \<Rightarrow> s0)
           in case bfs nt netw depth maxNodes (s1, w1) of
                (s2, w2) \<Rightarrow> (\<lparr>nodes = st_nodes s2, edges = st_edges s2, clusters = []\<rparr>, w2)))"

section \<open>The investigation\<close>

datatype Relationship = Sender | Receiver | Both

record ConnectedWallet =
  cw_address :: string
  relationship :: Relationship
  cw_transactionCount :: nat
  cw_totalVolume :: jsnum
  cw_totalVolumeUSD :: jsnum
  firstInteraction :: string
  lastInteraction :: string
  cw_riskScore :: jsnum

record ThreatIntel =
  isKnownThreat :: bool
  threatType :: "string list"
  associatedCampaigns :: "string list"
  sanctioned :: bool
  abuseReports :: nat
  details :: "string list"

record Analysis =
  behaviorPattern :: string
  volumeAnalysis :: string
  frequencyAnalysis :: string
  riskFactors :: "string list"
  recommendations :: "string list"

record CryptoInvestigationResult =
  r_wallet :: CryptoWalletInfo
  r_transactions :: "CryptoTransaction list"
  r_connectedWallets :: "ConnectedWallet list"
  r_graph :: WalletGraph
  r_threatIntel :: ThreatIntel
  r_analysis :: Analysis

text \<open>The options object; an absent field takes its default (\<open>true\<close>,
  \<open>true\<close>, \<open>2\<close>).\<close>

record Options =
  fetchTransactions :: "bool option"
  buildGraph :: "bool option"
  graphDepth :: "int option"

definition connected_wallet :: "string \<Rightarrow> WalletGraph \<Rightarrow> GraphEdge \<Rightarrow> ConnectedWallet" where
  "connected_wallet a g edge =
     \<lparr>cw_address = (if target edge = a then source edge else target edge),
      relationship = Both,
      cw_transactionCount = transactions edge,
      cw_totalVolume = totalVolume edge,
      cw_totalVolumeUSD = totalVolumeUSD edge,
      firstInteraction = firstTx edge,
      lastInteraction = lastTx edge,
      cw_riskScore = (case find (\<lambda>n. node_id n = target edge) (nodes g) of
                        Some n \<Rightarrow> or_zero (node_riskScore n)
                      | None \<Rightarrow> Num 0)\<rparr>"

text \<open>\<open>investigateWallet\<close>: \<open>None\<close> is the \<open>null\<close> that the \<open>catch\<close>
  block returns. The only \<open>throw\<close> in the \<open>try\<close> block is the one for a root
  wallet that could not be fetched: \<open>getWalletTransactions\<close> and
  \<open>buildWalletGraph\<close> return a value in every case.\<close>

definition investigateWallet ::
  "net \<Rightarrow> string \<Rightarrow> string \<Rightarrow> Options \<Rightarrow> world \<Rightarrow> CryptoInvestigationResult option \<times> world" where
  "investigateWallet nt a netw options w =
     (let fetchTxs = (case fetchTransactions options of None \<Rightarrow> True | Some b \<Rightarrow> b);
          build = (case buildGraph options of None \<Rightarrow> True | Some b \<Rightarrow> b);
          depth = (case graphDepth options of None \<Rightarrow> 2 | Some d \<Rightarrow> d)
      in case getWalletInfo nt a netw w of
           (None, w1) \<Rightarrow> (None, w1)
         | (Some wallet, w1) \<Rightarrow>
             (case (if fetchTxs then getWalletTransactions nt a netw 50 w1 else ([], w1)) of
                (txs, w2) \<Rightarrow>
                  (case (if build then buildWalletGraph nt a netw depth 30 w2
                         else (\<lparr>nodes = [], edges = [], clusters = []\<rparr>, w2)) of
                     (g, w3) \<Rightarrow>
                       (Some \<lparr>r_wallet = wallet,
                              r_transactions = txs,
                              r_connectedWallets = map (connected_wallet a g) (edges g),
                              r_graph = g,
                              r_threatIntel =
                                \<lparr>isKnownThreat = (isRansomware wallet \<or> isMixer wallet),
                                 threatType =
                                   filter (\<lambda>t. t \<noteq> [])
                                     [if isRansomware wallet then ''Ransomware'' else [],
                                      if isMixer wallet then ''Mixer'' else []],
                                 associatedCampaigns = [],
                                 sanctioned = False,
                                 abuseReports = 0,
                                 details = []\<rparr>,
                              r_analysis =
                                \<lparr>behaviorPattern = analyzeBehaviorPattern txs,
                                 volumeAnalysis = analyzeVolume txs,
                                 frequencyAnalysis = analyzeFrequency txs,
                                 riskFactors = identifyRiskFactors wallet txs,
                                 recommendations = generateRecommendations wallet txs\<rparr>\<rparr>,
                        w3))))"


section \<open>The wallet lookups of a build\<close>

text \<open>
  The calls of \<open>getWalletInfo\<close> that a build makes, in the order in which it makes
  them, each as the address asked for and the world in which it is asked. They are
  read off the traversal: the loop over the connections asks for each address that is
  not visited when its turn comes, one pass of the \<open>while\<close> loop makes the
  lookups of its connections, and the build starts with the lookup of the root.
\<close>

fun lookups_of_connections ::
  "net \<Rightarrow> string \<Rightarrow> string \<Rightarrow> nat \<Rightarrow> (string \<times> connection) list \<Rightarrow> build \<times> world \<Rightarrow>
   (string \<times> world) list" where
  "lookups_of_connections nt netw a level [] (s, w) = []"
| "lookups_of_connections nt netw a level ((connAddr, d) # rest) (s, w) =
     (if connAddr \<notin> st_visited s then [(connAddr, w)] else []) @
     lookups_of_connections nt netw a level rest
       (add_connections nt netw a level [(connAddr, d)] (s, w))"

definition lookups_of_expand :: "net \<Rightarrow> string \<Rightarrow> int \<Rightarrow> build \<times> world \<Rightarrow> (string \<times> world) list" where
  "lookups_of_expand nt netw depth sw =
     (case sw of (s, w) \<Rightarrow>
        (case st_queue s of
           [] \<Rightarrow> []
         | (a, level) # rest \<Rightarrow>
             if int level \<ge> depth then []
             else
               (case getWalletTransactions nt a netw 20 w of
                  (txs, w1) \<Rightarrow>
                    lookups_of_connections nt netw a level
                      (take 10 (analyze_transactions a txs))
                      (s\<lparr>st_queue := rest\<rparr>, w1))))"

function lookups_of_bfs ::
  "net \<Rightarrow> string \<Rightarrow> int \<Rightarrow> int \<Rightarrow> build \<times> world \<Rightarrow> (string \<times> world) list" where
  "lookups_of_bfs nt netw depth maxNodes sw =
     (if st_queue (fst sw) \<noteq> [] \<and> int (length (st_nodes (fst sw))) < maxNodes
      then lookups_of_expand nt netw depth sw @
           lookups_of_bfs nt netw depth maxNodes (expand nt netw depth sw)
      else [])"
  by pat_completeness auto

definition lookups ::
  "net \<Rightarrow> string \<Rightarrow> string \<Rightarrow> int \<Rightarrow> int \<Rightarrow> world \<Rightarrow> (string \<times> world) list" where
  "lookups nt rootAddress netw depth maxNodes w =
     (rootAddress, w) #
     (case getWalletInfo nt rootAddress netw w of
        (rootWallet, w1) \<Rightarrow>
          (let s0 = \<lparr>st_nodes = [], st_edges = [], st_visited = {},
                     st_queue = [(rootAddress, 0)]\<rparr>;
               s1 = (case rootWallet of
                       Some rw \<Rightarrow> s0\<lparr>st_nodes := [make_node rootAddress rw],
                                       st_visited := {rootAddress}\<rparr>
                     | None \<Rightarrow> s0)
           in lookups_of_bfs nt netw depth maxNodes (s1, w1)))"

text \<open>The addresses of the lookups in a list that gave no wallet.\<close>

definition failures :: "net \<Rightarrow> string \<Rightarrow> (string \<times> world) list \<Rightarrow> string list" where
  "failures nt netw ls = map fst (filter (\<lambda>(x, w). fst (getWalletInfo nt x netw w) = None) ls)"

definition failed_lookups ::
  "net \<Rightarrow> string \<Rightarrow> string \<Rightarrow> int \<Rightarrow> int \<Rightarrow> world \<Rightarrow> string list" where
  "failed_lookups nt rootAddress netw depth maxNodes w =
     failures nt netw (lookups nt rootAddress netw depth maxNodes w)"

text \<open>A build state whose edges stay inside its nodes and a set \<open>F\<close> of further
  addresses: the visited addresses are the addresses of the nodes, and the queue and
  both ends of every edge are visited or in \<open>F\<close>.\<close>

definition closed_upto :: "string set \<Rightarrow> build \<Rightarrow> bool" where
  "closed_upto F s =
     (st_visited s = node_id ` set (st_nodes s) \<and>
      fst ` set (st_queue s) \<subseteq> st_visited s \<union> F \<and>
      (\<forall>e \<in> set (st_edges s). source e \<in> st_visited s \<union> F \<and> target e \<in> st_visited s \<union> F))"

section \<open>Predicates and sample worlds used in the statements\<close>

text \<open>The risk fields that both adapters write into every wallet they build.\<close>

definition constant_risk :: "CryptoWalletInfo \<Rightarrow> bool" where
  "constant_risk v =
     (riskScore v = Num 0 \<and> riskLevel v = Safe \<and> labels v = [] \<and>
      \<not> isExchange v \<and> \<not> isMixer v \<and> \<not> isRansomware v)"

text \<open>Every wallet in the cache carries these constants, as every wallet that
  \<open>getWalletInfo\<close> stores does.\<close>

definition cache_constant_risk :: "world \<Rightarrow> bool" where
  "cache_constant_risk w = (\<forall>key v e. walletCache w key = Some (v, e) \<longrightarrow> constant_risk v)"

text \<open>The cache key of a wallet.\<close>

definition wallet_key :: "string \<Rightarrow> string \<Rightarrow> string" where
  "wallet_key netw a = ''wallet_info_'' @ netw @ ''_'' @ a"


text \<open>A request that was answered with a body.\<close>

fun is_ok :: "'a http \<Rightarrow> bool" where
  "is_ok (Ok b) = True"
| "is_ok _ = False"

text \<open>The lookup of a wallet fails on every provider: the cache has no entry, and
  each explorer that the network's adapter asks, in the order and with the request
  numbers of the adapter, throws, answers with an error status, or (blockchair) has
  no record of the address.\<close>

definition lookup_fails_everywhere :: "net \<Rightarrow> string \<Rightarrow> string \<Rightarrow> world \<Rightarrow> bool" where
  "lookup_fails_everywhere nt a netw w =
     (getCachedWallet (wallet_key netw a) w = None \<and>
      (netw = ''bitcoin'' \<longrightarrow>
         \<not> is_ok (rawaddr nt (requests w) a 0) \<and>
         (\<forall>d. blockchair nt (requests w + 1) a \<noteq> Ok (Some d))) \<and>
      (netw = ''ethereum'' \<longrightarrow> \<not> is_ok (ethplorer nt (requests w) a)))"


text \<open>A start without cached responses, at the epoch; explorers that answer every
  request, that fail every request, and that report every address as absent; the
  options with every field left to its default.\<close>

definition world0 :: world where
  "world0 = \<lparr>requests = 0, now = 0, walletCache = (\<lambda>key. None), txsCache = (\<lambda>key. None)\<rparr>"

definition wallet_body :: rawaddr_body where
  "wallet_body = \<lparr>final_balance = Num 0, total_received = Num 0, total_sent = Num 0,
                   n_tx = Num 0, raw_txs = []\<rparr>"

definition net_up :: net where
  "net_up = \<lparr>rawaddr = (\<lambda>n a limit. Ok wallet_body), blockchair = (\<lambda>n a. Threw),
              ethplorer = (\<lambda>n a. Threw), latency = (\<lambda>n. 0)\<rparr>"

definition net_down :: net where
  "net_down = \<lparr>rawaddr = (\<lambda>n a limit. Threw), blockchair = (\<lambda>n a. Threw),
                ethplorer = (\<lambda>n a. Threw), latency = (\<lambda>n. 0)\<rparr>"

definition net_absent :: net where
  "net_absent = \<lparr>rawaddr = (\<lambda>n a limit. NotOk 404), blockchair = (\<lambda>n a. NotOk 404),
                  ethplorer = (\<lambda>n a. NotOk 404), latency = (\<lambda>n. 0)\<rparr>"

definition default_options :: Options where
  "default_options = \<lparr>fetchTransactions = None, buildGraph = None, graphDepth = None\<rparr>"

text \<open>Transactions and explorers for the traversal: one transaction from \<open>A\<close> to
  \<open>B\<close>, \<open>C\<close> and \<open>D\<close>; one transaction from \<open>A\<close> to \<open>B\<close>, which both
  addresses list; explorers that know only \<open>A\<close>; explorers that reject the first
  two requests.\<close>

definition tx_star :: rawaddr_tx where
  "tx_star = \<lparr>raw_hash = ''h1'', raw_time = Num 1700000000,
     raw_inputs = [\<lparr>prev_out_addr = Some ''A'', prev_out_value = Num 300000000\<rparr>],
     raw_out = [\<lparr>raw_addr = Some ''B'', raw_value = Num 100000000\<rparr>,
                \<lparr>raw_addr = Some ''C'', raw_value = Num 100000000\<rparr>,
                \<lparr>raw_addr = Some ''D'', raw_value = Num 100000000\<rparr>]\<rparr>"

definition tx_pair :: rawaddr_tx where
  "tx_pair = \<lparr>raw_hash = ''h2'', raw_time = Num 1700000000,
     raw_inputs = [\<lparr>prev_out_addr = Some ''A'', prev_out_value = Num 100000000\<rparr>],
     raw_out = [\<lparr>raw_addr = Some ''B'', raw_value = Num 100000000\<rparr>]\<rparr>"

definition net_star :: net where
  "net_star = \<lparr>rawaddr = (\<lambda>n a limit. if a = ''A'' then Ok (wallet_body\<lparr>raw_txs := [tx_star]\<rparr>)
                                        else Ok wallet_body),
     blockchair = (\<lambda>n a. Threw), ethplorer = (\<lambda>n a. Threw), latency = (\<lambda>n. 0)\<rparr>"

definition net_pair :: net where
  "net_pair = \<lparr>rawaddr = (\<lambda>n a limit. if a = ''A'' \<or> a = ''B'' then Ok (wallet_body\<lparr>raw_txs := [tx_pair]\<rparr>)
                                        else Ok wallet_body),
     blockchair = (\<lambda>n a. Threw), ethplorer = (\<lambda>n a. Threw), latency = (\<lambda>n. 0)\<rparr>"

definition net_half :: net where
  "net_half = \<lparr>rawaddr = (\<lambda>n a limit. if a = ''A'' then Ok (wallet_body\<lparr>raw_txs := [tx_pair]\<rparr>)
                                        else NotOk 404),
     blockchair = (\<lambda>n a. NotOk 404), ethplorer = (\<lambda>n a. Threw), latency = (\<lambda>n. 0)\<rparr>"

definition net_late :: net where
  "net_late = \<lparr>rawaddr = (\<lambda>n a limit. if n < 2 then NotOk 429
                                        else if a = ''A'' then Ok (wallet_body\<lparr>raw_txs := [tx_pair]\<rparr>)
                                        else Ok wallet_body),
     blockchair = (\<lambda>n a. NotOk 429), ethplorer = (\<lambda>n a. Threw), latency = (\<lambda>n. 0)\<rparr>"

section \<open>Rounding to the nearest double\<close>

termination expo_up
proof (relation "measure (\<lambda>x. nat \<lfloor>x\<rfloor>)")
  show "wf (measure (\<lambda>x::real. nat \<lfloor>x\<rfloor>))" by simp
next
  fix x :: real
  assume "\<not> x < 2"
  then have "2 \<le> x" by simp
  then have "\<lfloor>x / 2\<rfloor> < \<lfloor>x\<rfloor>" by linarith
  moreover from \<open>2 \<le> x\<close> have "0 < \<lfloor>x\<rfloor>" by linarith
  ultimately show "(x / 2, x) \<in> measure (\<lambda>x. nat \<lfloor>x\<rfloor>)" by simp
qed

lemma ceiling_half_less:
  fixes y :: real
  assumes "1 < y"
  shows "\<lceil>y / 2\<rceil> < \<lceil>y\<rceil>"
proof (cases "2 \<le> y")
  case True
  have "real_of_int \<lceil>y / 2\<rceil> < y / 2 + 1" by linarith
  also from True have "\<dots> \<le> y" by simp
  also have "\<dots> \<le> real_of_int \<lceil>y\<rceil>" by (rule le_of_int_ceiling)
  finally show ?thesis by simp
next
  case False
  then have "y / 2 \<le> 1" by simp
  then have "\<lceil>y / 2\<rceil> \<le> 1" by (subst ceiling_le_iff) simp
  moreover from assms have "1 < \<lceil>y\<rceil>" by (subst less_ceiling_iff) simp
  ultimately show ?thesis by linarith
qed

termination expo_down
proof (relation "measure (\<lambda>x. nat \<lceil>1 / x\<rceil>)")
  show "wf (measure (\<lambda>x::real. nat \<lceil>1 / x\<rceil>))" by simp
next
  fix x :: real
  assume "\<not> (1 \<le> x \<or> x \<le> 0)"
  then have x: "0 < x" "x < 1" by simp_all
  then have y: "1 < 1 / x" by simp
  have h: "1 / (2 * x) = (1 / x) / 2" by simp
  have n: "nat a < nat b" if "a < b" "0 < b" for a b :: int using that by simp
  from ceiling_half_less[OF y] have a: "\<lceil>(1 / x) / 2\<rceil> < \<lceil>1 / x\<rceil>" .
  from x have b: "0 < \<lceil>1 / x\<rceil>" by (subst less_ceiling_iff) simp
  show "(2 * x, x) \<in> measure (\<lambda>x. nat \<lceil>1 / x\<rceil>)"
    unfolding h in_measure by (rule n[OF a b])
qed

declare expo_up.simps [simp del] expo_down.simps [simp del]

lemma two_powi_succ: "(2::real) powi (e + 1) = 2 * 2 powi e"
  by (rule power_int_add_1') simp

lemma expo_up_bounds:
  "1 \<le> x \<Longrightarrow> 0 \<le> expo_up x \<and> 2 powi (expo_up x) \<le> x \<and> x < 2 powi (expo_up x + 1)"
proof (induction x rule: expo_up.induct)
  case (1 x)
  show ?case
  proof (cases "x < 2")
    case True
    then have "expo_up x = 0" by (subst expo_up.simps) simp
    with True "1.prems" show ?thesis by simp
  next
    case False
    then have h: "1 \<le> x / 2" by simp
    from "1.IH"[OF False h] have
      i: "0 \<le> expo_up (x / 2)" "2 powi (expo_up (x / 2)) \<le> x / 2" "x / 2 < 2 powi (expo_up (x / 2) + 1)"
      by simp_all
    from False have u: "expo_up x = expo_up (x / 2) + 1" by (subst expo_up.simps) simp
    have "(2::real) powi (expo_up (x / 2) + 1 + 1) = 2 * 2 powi (expo_up (x / 2) + 1)"
      by (rule two_powi_succ)
    with i show ?thesis unfolding u by (simp only: two_powi_succ) linarith
  qed
qed

lemma expo_down_bounds:
  "0 < x \<Longrightarrow> x < 1 \<Longrightarrow> 2 powi (expo_down x) \<le> x \<and> x < 2 powi (expo_down x + 1)"
proof (induction x rule: expo_down.induct)
  case (1 x)
  from "1.prems" have c: "\<not> (1 \<le> x \<or> x \<le> 0)" by simp
  then have u: "expo_down x = expo_down (2 * x) - 1" by (subst expo_down.simps) simp
  show ?case
  proof (cases "2 * x < 1")
    case True
    from "1.IH"[OF c _ True] "1.prems" have
      i: "2 powi (expo_down (2 * x)) \<le> 2 * x" "2 * x < 2 powi (expo_down (2 * x) + 1)" by simp_all
    have "(2::real) powi (expo_down (2 * x)) = 2 * 2 powi (expo_down (2 * x) - 1)"
      using two_powi_succ[of "expo_down (2 * x) - 1"] by simp
    with i show ?thesis unfolding u by (simp add: two_powi_succ)
  next
    case False
    then have "expo_down (2 * x) = 0" by (subst expo_down.simps) simp
    with u have "expo_down x = - 1" by simp
    with False "1.prems" show ?thesis by simp
  qed
qed

lemma expo_bounds: "x \<noteq> 0 \<Longrightarrow> 2 powi (expo x) \<le> \<bar>x\<bar> \<and> \<bar>x\<bar> < 2 powi (expo x + 1)"
  using expo_up_bounds[of "\<bar>x\<bar>"] expo_down_bounds[of "\<bar>x\<bar>"]
  by (simp add: expo_def)

lemma expo_unique:
  assumes "2 powi e \<le> \<bar>x\<bar>" and "\<bar>x\<bar> < 2 powi (e + 1)"
  shows "expo x = e"
proof -
  have "(0::real) < 2 powi e" by simp
  with assms(1) have "0 < \<bar>x\<bar>" by linarith
  then have "x \<noteq> 0" by simp
  from expo_bounds[OF this] have b: "2 powi (expo x) \<le> \<bar>x\<bar>" "\<bar>x\<bar> < 2 powi (expo x + 1)" by simp_all
  show ?thesis
  proof (rule ccontr)
    assume n: "expo x \<noteq> e"
    show False
    proof (cases "expo x < e")
      case True
      then have "(2::real) powi (expo x + 1) \<le> 2 powi e" by (intro power_int_increasing) simp_all
      with b assms show False by simp
    next
      case False
      with n have "(2::real) powi (e + 1) \<le> 2 powi (expo x)" by (intro power_int_increasing) simp_all
      with b assms show False by simp
    qed
  qed
qed

lemma expo_minus: "expo (- x) = expo x"
  by (simp add: expo_def)

lemma expo_mono:
  assumes "0 < x" and "x \<le> y"
  shows "expo x \<le> expo y"
proof (rule ccontr)
  assume "\<not> expo x \<le> expo y"
  then have "(2::real) powi (expo y + 1) \<le> 2 powi (expo x)" by (intro power_int_increasing) simp_all
  moreover from assms expo_bounds[of x] have "2 powi (expo x) \<le> x" by simp
  moreover from assms expo_bounds[of y] have "y < 2 powi (expo y + 1)" by simp
  ultimately show False using assms(2) by linarith
qed

lemma rne_of_int: "rne (of_int k) = k"
  by (simp add: rne_def)

lemma rne_bounds: "\<lfloor>m\<rfloor> \<le> rne m \<and> rne m \<le> \<lfloor>m\<rfloor> + 1"
  by (simp add: rne_def Let_def)

lemma rne_mono:
  assumes "a \<le> b"
  shows "rne a \<le> rne b"
proof (cases "\<lfloor>a\<rfloor> = \<lfloor>b\<rfloor>")
  case True
  with assms show ?thesis by (simp add: rne_def Let_def)
next
  case False
  from assms have "\<lfloor>a\<rfloor> \<le> \<lfloor>b\<rfloor>" by (rule floor_mono)
  with False have "\<lfloor>a\<rfloor> + 1 \<le> \<lfloor>b\<rfloor>" by simp
  with rne_bounds[of a] rne_bounds[of b] show ?thesis by linarith
qed

lemma rne_minus: "rne (- m) = - rne m"
proof (cases "m = of_int \<lfloor>m\<rfloor>")
  case True
  then have "rne (- m) = rne (of_int (- \<lfloor>m\<rfloor>))" by simp
  also have "\<dots> = - \<lfloor>m\<rfloor>" by (rule rne_of_int)
  also from True have "\<lfloor>m\<rfloor> = rne m" by (metis rne_of_int)
  finally show ?thesis .
next
  case False
  then have f: "\<lfloor>- m\<rfloor> = - \<lfloor>m\<rfloor> - 1"
    by (metis ceiling_altdef ceiling_def add_diff_cancel_right' minus_diff_eq diff_minus_eq_add neg_equal_iff_equal uminus_add_conv_diff)
  have e: "even (- \<lfloor>m\<rfloor> - 1) = odd \<lfloor>m\<rfloor>" by simp
  show ?thesis
    unfolding rne_def Let_def f e by (auto simp: algebra_simps)
qed

lemma two_powi_split: "(2::real) ^ n * 2 powi (e - int n) = 2 powi e"
  using power_int_add[of "2::real" "int n" "e - int n"] by simp

lemma quantum_pos: "0 < quantum x"
  by (simp add: quantum_def)

lemma quantum_minus: "quantum (- x) = quantum x"
  by (simp add: quantum_def expo_minus)

lemma nearest_minus: "nearest (- x) = - nearest x"
  by (simp add: nearest_def quantum_minus rne_minus)

lemma nearest_nonneg:
  assumes "0 \<le> x"
  shows "0 \<le> nearest x"
proof -
  from assms quantum_pos[of x] have "0 \<le> x / quantum x" by simp
  from rne_mono[OF this] have "0 \<le> rne (x / quantum x)" using rne_of_int[of 0] by simp
  with quantum_pos[of x] show ?thesis by (simp add: nearest_def)
qed

lemma nearest_mono_pos:
  assumes "0 < x" and "x \<le> y"
  shows "nearest x \<le> nearest y"
proof -
  define ex where "ex = max (expo x) (- 1022)"
  define ey where "ey = max (expo y) (- 1022)"
  from assms have y: "0 < y" by simp
  from expo_mono[OF assms] have le: "ex \<le> ey" by (simp add: ex_def ey_def)
  have nx: "nearest x = of_int (rne (x / 2 powi (ex - 52))) * 2 powi (ex - 52)"
    using assms(1) by (simp add: nearest_def quantum_def ex_def)
  have ny: "nearest y = of_int (rne (y / 2 powi (ey - 52))) * 2 powi (ey - 52)"
    using y by (simp add: nearest_def quantum_def ey_def)
  show ?thesis
  proof (cases "ex = ey")
    case True
    from assms(2) have "x / 2 powi (ey - 52) \<le> y / 2 powi (ey - 52)"
      by (simp add: divide_right_mono)
    from rne_mono[OF this] show ?thesis
      unfolding nx ny True by (simp add: mult_right_mono)
  next
    case False
    with le have lt: "ex + 1 \<le> ey" by simp
    then have "- 1022 < ey" by (simp add: ex_def)
    then have eyy: "ey = expo y" by (simp add: ey_def)
    from y expo_bounds[of y] have "2 powi ey \<le> y" by (simp add: eyy)
    then have "2 powi ey / 2 powi (ey - 52) \<le> y / 2 powi (ey - 52)"
      by (simp add: divide_right_mono)
    moreover have "(2::real) powi ey / 2 powi (ey - 52) = 2 powi 52"
      by (simp flip: power_int_diff)
    ultimately have "of_int (2 ^ 52) \<le> y / 2 powi (ey - 52)" by simp
    from rne_mono[OF this] have "2 ^ 52 \<le> rne (y / 2 powi (ey - 52))"
      by (simp only: rne_of_int)
    then have "(2::real) ^ 52 \<le> of_int (rne (y / 2 powi (ey - 52)))"
      by (metis of_int_le_iff of_int_numeral of_int_power)
    then have "2 ^ 52 * 2 powi (ey - 52) \<le> nearest y"
      unfolding ny by (simp add: mult_right_mono)
    moreover have "(2::real) ^ 52 * 2 powi (ey - 52) = 2 powi ey"
      using two_powi_split[of 52 ey] by simp
    ultimately have low: "2 powi ey \<le> nearest y" by simp
    from assms(1) expo_bounds[of x] have "x < 2 powi (expo x + 1)" by simp
    also have "\<dots> \<le> 2 powi (ex + 1)" by (intro power_int_increasing) (simp_all add: ex_def)
    finally have "x / 2 powi (ex - 52) \<le> 2 powi (ex + 1) / 2 powi (ex - 52)"
      by (simp add: divide_right_mono)
    moreover have "(2::real) powi (ex + 1) / 2 powi (ex - 52) = 2 powi 53"
      by (simp flip: power_int_diff)
    ultimately have "x / 2 powi (ex - 52) \<le> of_int (2 ^ 53)" by simp
    from rne_mono[OF this] have "rne (x / 2 powi (ex - 52)) \<le> 2 ^ 53"
      by (simp only: rne_of_int)
    then have "of_int (rne (x / 2 powi (ex - 52))) \<le> (2::real) ^ 53"
      by (metis of_int_le_iff of_int_numeral of_int_power)
    then have "nearest x \<le> 2 ^ 53 * 2 powi (ex - 52)"
      unfolding nx by (simp add: mult_right_mono)
    moreover have "(2::real) ^ 53 * 2 powi (ex - 52) = 2 powi (ex + 1)"
      using two_powi_split[of 53 "ex + 1"] by simp
    ultimately have "nearest x \<le> 2 powi (ex + 1)" by simp
    also from lt have "\<dots> \<le> 2 powi ey" by (intro power_int_increasing) simp_all
    finally show ?thesis using low by linarith
  qed
qed

lemma nearest_mono:
  assumes "x \<le> y"
  shows "nearest x \<le> nearest y"
proof -
  consider "0 < x" | "x \<le> 0" "0 \<le> y" | "y < 0" by linarith
  then show ?thesis
  proof cases
    case 1
    from nearest_mono_pos[OF 1 assms] show ?thesis .
  next
    case 2
    from 2(1) have "0 \<le> nearest (- x)" by (intro nearest_nonneg) simp
    then have "nearest x \<le> 0" by (simp add: nearest_minus)
    with nearest_nonneg[OF 2(2)] show ?thesis by linarith
  next
    case 3
    then have "0 < - y" by simp
    moreover from assms have "- y \<le> - x" by simp
    ultimately have "nearest (- y) \<le> nearest (- x)" by (rule nearest_mono_pos)
    then show ?thesis by (simp add: nearest_minus)
  qed
qed

lemma two_powi_le_cancel:
  assumes "(2::real) powi a \<le> 2 powi b"
  shows "a \<le> b"
proof (rule ccontr)
  assume "\<not> a \<le> b"
  then have "(2::real) powi b < 2 powi a" by (intro power_int_strict_increasing) simp_all
  with assms show False by simp
qed

lemma nearest_of_grid:
  assumes "x \<noteq> 0" and "x / quantum x = of_int j"
  shows "nearest x = x"
proof -
  from assms(2) have "rne (x / quantum x) = j" by (simp add: rne_of_int)
  moreover from assms(2) quantum_pos[of x] have "x = of_int j * quantum x"
    by (simp add: field_simps)
  ultimately show ?thesis using assms(1) by (simp add: nearest_def)
qed

lemma nearest_exact:
  assumes x: "x = of_int m * 2 powi k" and m: "\<bar>m\<bar> \<le> 2 ^ 53" and k: "- 1074 \<le> k"
  shows "nearest x = x"
proof (cases "x = 0")
  case True
  then show ?thesis by (simp add: nearest_def)
next
  case False
  define e where "e = max (expo x) (- 1022)"
  have q: "quantum x = 2 powi (e - 52)" by (simp add: quantum_def e_def)
  show ?thesis
  proof (cases "e - 52 \<le> k")
    case True
    have "(2::real) powi k / 2 powi (e - 52) = 2 powi (k - (e - 52))"
      by (simp add: power_int_diff)
    also from True have "\<dots> = 2 ^ nat (k - (e - 52))"
      by (simp add: power_int_nonneg_exp)
    finally have r: "(2::real) powi k / 2 powi (e - 52) = 2 ^ nat (k - (e - 52))" .
    have "real_of_int m * 2 powi k / 2 powi (e - 52) = real_of_int m * (2 powi k / 2 powi (e - 52))"
      by simp
    also have "\<dots> = real_of_int m * 2 ^ nat (k - (e - 52))" by (simp only: r)
    also have "\<dots> = of_int (m * 2 ^ nat (k - (e - 52)))" by simp
    finally have "real_of_int m * 2 powi k / 2 powi (e - 52) = of_int (m * 2 ^ nat (k - (e - 52)))" .
    moreover have "x / quantum x = of_int m * 2 powi k / 2 powi (e - 52)"
      unfolding q using x by simp
    ultimately have "x / quantum x = of_int (m * 2 ^ nat (k - (e - 52)))" by simp
    from nearest_of_grid[OF False this] show ?thesis .
  next
    case False': False
    with k have "- 1022 < e" by simp
    then have ee: "e = expo x" by (simp add: e_def)
    from m have "\<bar>real_of_int m\<bar> \<le> 2 ^ 53"
      by (metis of_int_abs of_int_le_iff of_int_numeral of_int_power)
    then have "\<bar>x\<bar> \<le> 2 ^ 53 * 2 powi k"
      by (simp add: x abs_mult mult_right_mono)
    also have "\<dots> = 2 powi (k + 53)" using two_powi_split[of 53 "k + 53"] by simp
    finally have up: "\<bar>x\<bar> \<le> 2 powi (k + 53)" .
    from False expo_bounds[of x] have "2 powi e \<le> \<bar>x\<bar>" by (simp add: ee)
    with up have "(2::real) powi e \<le> 2 powi (k + 53)" by linarith
    from two_powi_le_cancel[OF this] False' have ek: "e = k + 53" by simp
    from \<open>2 powi e \<le> \<bar>x\<bar>\<close> have "2 ^ 53 * 2 powi k \<le> \<bar>real_of_int m\<bar> * 2 powi k"
      using two_powi_split[of 53 "k + 53"] by (simp add: ek x abs_mult)
    then have "2 ^ 53 \<le> \<bar>real_of_int m\<bar>" by simp
    then have "2 ^ 53 \<le> \<bar>m\<bar>"
      by (metis of_int_abs of_int_le_iff of_int_numeral of_int_power)
    with m have "\<bar>m\<bar> = 2 ^ 53" by simp
    then have "even m" by (metis even_abs_add_iff even_add even_numeral even_power zero_less_numeral)
    then obtain h where h: "m = 2 * h" by (elim evenE)
    have "(2::real) powi (1 + k) = 2 * 2 powi k"
      using two_powi_succ[of k] by (simp add: add.commute)
    then have "real_of_int m * 2 powi k / 2 powi (e - 52) = of_int h"
      by (simp add: ek h)
    moreover have "x / quantum x = of_int m * 2 powi k / 2 powi (e - 52)"
      unfolding q using x by simp
    ultimately have "x / quantum x = of_int h" by simp
    from nearest_of_grid[OF False this] show ?thesis .
  qed
qed

lemma huge_pos: "0 < huge"
  by (simp add: huge_def)

lemma below_huge:
  assumes "\<bar>x\<bar> \<le> 2 ^ 53"
  shows "\<bar>x\<bar> < huge"
proof -
  have "(2::real) ^ 53 = 2 powi 53" by simp
  with assms have "\<bar>x\<bar> \<le> 2 powi 53" by (simp only:)
  also have "(2::real) powi 53 < 2 powi 1024" by (intro power_int_strict_increasing) simp_all
  finally show ?thesis by (simp only: huge_def)
qed

lemma fl_exact:
  assumes "x = of_int m * 2 powi k" and "\<bar>m\<bar> \<le> 2 ^ 53" and "- 1074 \<le> k"
    and "\<bar>x\<bar> < huge"
  shows "fl x = Num x"
proof -
  from assms(4) have "x < huge" "- huge < x" by (simp_all add: abs_less_iff)
  with nearest_exact[OF assms(1-3)] show ?thesis by (simp add: fl_def)
qed

lemma fl_int:
  assumes "\<bar>k\<bar> \<le> 2 ^ 53"
  shows "fl (of_int k) = Num (of_int k)"
proof -
  from assms have "\<bar>real_of_int k\<bar> \<le> 2 ^ 53"
    by (metis of_int_abs of_int_le_iff of_int_numeral of_int_power)
  then have "\<bar>real_of_int k\<bar> < huge" by (rule below_huge)
  with fl_exact[of "of_int k" k 0] assms show ?thesis by simp
qed

lemma fl_numeral: "numeral n \<le> (9007199254740992::int) \<Longrightarrow> fl (numeral n) = Num (numeral n)"
  using fl_int[of "numeral n"] by simp

lemma fl_neg_numeral:
  "numeral n \<le> (9007199254740992::int) \<Longrightarrow> fl (- numeral n) = Num (- numeral n)"
  using fl_int[of "- numeral n"] by simp

lemma fl_zero: "fl 0 = Num 0"
  using fl_int[of 0] by simp

lemma fl_one: "fl 1 = Num 1"
  using fl_int[of 1] by simp

lemma nearest_eval:
  assumes "2 powi e \<le> \<bar>x\<bar>" and "\<bar>x\<bar> < 2 powi (e + 1)"
  shows "nearest x = of_int (rne (x / 2 powi (max e (- 1022) - 52))) * 2 powi (max e (- 1022) - 52)"
proof -
  have "(0::real) < 2 powi e" by simp
  with assms(1) have "0 < \<bar>x\<bar>" by linarith
  then have "x \<noteq> 0" by simp
  with expo_unique[OF assms] show ?thesis by (simp add: nearest_def quantum_def)
qed

lemma fl_at_most:
  assumes "x \<le> c" and "nearest c = c" and "c < huge"
  shows "at_most (fl x) c"
proof -
  from nearest_mono[OF assms(1)] assms(2) have "nearest x \<le> c" by simp
  with assms(3) show ?thesis by (simp add: fl_def Let_def)
qed

lemma fl_at_least:
  assumes "c \<le> x" and "nearest c = c" and "- huge < c"
  shows "at_least (fl x) c"
proof -
  from nearest_mono[OF assms(1)] assms(2) have "c \<le> nearest x" by simp
  with assms(3) huge_pos show ?thesis by (simp add: fl_def Let_def)
qed

lemma nearest_int: "\<bar>k\<bar> \<le> 2 ^ 53 \<Longrightarrow> nearest (of_int k) = of_int k"
  using nearest_exact[of "of_int k" k 0] by simp

section \<open>Termination of the traversal\<close>

lemma add_connections_lengths:
  "add_connections nt netw a level cs (s, w) = (s', w') \<Longrightarrow>
   length (st_queue s') + length (st_nodes s) = length (st_queue s) + length (st_nodes s') \<and>
   length (st_nodes s) \<le> length (st_nodes s')"
proof (induction cs arbitrary: s w)
  case Nil
  then show ?case by simp
next
  case (Cons c cs)
  obtain connAddr d where c: "c = (connAddr, d)" by (cases c)
  show ?case
  proof (cases "connAddr \<notin> st_visited s")
    case False
    with Cons.prems c have
      "add_connections nt netw a level cs
         (s\<lparr>st_edges := st_edges s @ [make_edge a connAddr d]\<rparr>, w) = (s', w')"
      by simp
    from Cons.IH[OF this] show ?thesis by simp
  next
    case True
    show ?thesis
    proof (cases "getWalletInfo nt connAddr netw w")
      case (Pair r w1)
      show ?thesis
      proof (cases r)
        case None
        with Cons.prems c True Pair have
          "add_connections nt netw a level cs
             (s\<lparr>st_edges := st_edges s @ [make_edge a connAddr d]\<rparr>, w1) = (s', w')"
          by simp
        from Cons.IH[OF this] show ?thesis by simp
      next
        case (Some cw)
        with Cons.prems c True Pair have
          "add_connections nt netw a level cs
             (s\<lparr>st_nodes := st_nodes s @ [make_node connAddr cw],
                st_visited := insert connAddr (st_visited s),
                st_queue := st_queue s @ [(connAddr, level + 1)],
                st_edges := st_edges s @ [make_edge a connAddr d]\<rparr>, w1) = (s', w')"
          by simp
        from Cons.IH[OF this] show ?thesis by simp
      qed
    qed
  qed
qed

lemma expand_lengths:
  assumes "st_queue s \<noteq> []" and "expand nt netw depth (s, w) = (s', w')"
  shows "length (st_queue s') + length (st_nodes s) + 1 = length (st_queue s) + length (st_nodes s') \<and>
         length (st_nodes s) \<le> length (st_nodes s')"
proof -
  from assms(1) obtain a level rest where q: "st_queue s = (a, level) # rest"
    by (cases "st_queue s") auto
  show ?thesis
  proof (cases "int level \<ge> depth")
    case True
    with assms(2) q show ?thesis by (auto simp: expand_def)
  next
    case False
    obtain txs w1 where t: "getWalletTransactions nt a netw 20 w = (txs, w1)"
      by (cases "getWalletTransactions nt a netw 20 w")
    from assms(2) q False t have
      "add_connections nt netw a level (take 10 (analyze_transactions a txs))
         (s\<lparr>st_queue := rest\<rparr>, w1) = (s', w')"
      by (simp add: expand_def)
    from add_connections_lengths[OF this] q show ?thesis by simp
  qed
qed

lemma expand_decreases:
  assumes c: "st_queue (fst sw) \<noteq> [] \<and> int (length (st_nodes (fst sw))) < maxNodes"
  shows "((nt, netw, depth, maxNodes, expand nt netw depth sw), (nt, netw, depth, maxNodes, sw))
           \<in> measures [\<lambda>(nt, netw, depth, maxNodes, sw). nat (maxNodes - int (length (st_nodes (fst sw)))),
                       \<lambda>(nt, netw, depth, maxNodes, sw). length (st_queue (fst sw))]"
proof -
  obtain s w where sw: "sw = (s, w)" by (cases sw)
  obtain s' w' where e: "expand nt netw depth (s, w) = (s', w')"
    by (cases "expand nt netw depth (s, w)")
  from c sw have "st_queue s \<noteq> []" by simp
  from expand_lengths[OF this e] have
    l: "length (st_queue s') + length (st_nodes s) + 1 = length (st_queue s) + length (st_nodes s')"
    and m: "length (st_nodes s) \<le> length (st_nodes s')" by simp_all
  from c sw have b: "int (length (st_nodes s)) < maxNodes" by simp
  from l m b have
    "nat (maxNodes - int (length (st_nodes s'))) < nat (maxNodes - int (length (st_nodes s))) \<or>
     (nat (maxNodes - int (length (st_nodes s'))) = nat (maxNodes - int (length (st_nodes s))) \<and>
      length (st_queue s') < length (st_queue s))"
    by linarith
  with sw e show ?thesis by auto
qed

termination bfs
proof (relation "measures [\<lambda>(nt, netw, depth, maxNodes, sw). nat (maxNodes - int (length (st_nodes (fst sw)))),
                           \<lambda>(nt, netw, depth, maxNodes, sw). length (st_queue (fst sw))]")
  show "wf (measures [\<lambda>(nt, netw, depth, maxNodes, sw). nat (maxNodes - int (length (st_nodes (fst sw)))),
                      \<lambda>(nt, netw, depth, maxNodes, sw). length (st_queue (fst sw))])"
    by simp
next
  fix nt :: net and netw :: string and depth maxNodes :: int and sw :: "build \<times> world"
  assume "st_queue (fst sw) \<noteq> [] \<and> int (length (st_nodes (fst sw))) < maxNodes"
  then show
    "((nt, netw, depth, maxNodes, expand nt netw depth sw), (nt, netw, depth, maxNodes, sw))
       \<in> measures [\<lambda>(nt, netw, depth, maxNodes, sw). nat (maxNodes - int (length (st_nodes (fst sw)))),
                   \<lambda>(nt, netw, depth, maxNodes, sw). length (st_queue (fst sw))]"
    by (rule expand_decreases)
qed

termination lookups_of_bfs
proof (relation "measures [\<lambda>(nt, netw, depth, maxNodes, sw). nat (maxNodes - int (length (st_nodes (fst sw)))),
                           \<lambda>(nt, netw, depth, maxNodes, sw). length (st_queue (fst sw))]")
  show "wf (measures [\<lambda>(nt, netw, depth, maxNodes, sw). nat (maxNodes - int (length (st_nodes (fst sw)))),
                      \<lambda>(nt, netw, depth, maxNodes, sw). length (st_queue (fst sw))])"
    by simp
next
  fix nt :: net and netw :: string and depth maxNodes :: int and sw :: "build \<times> world"
  assume "st_queue (fst sw) \<noteq> [] \<and> int (length (st_nodes (fst sw))) < maxNodes"
  then show
    "((nt, netw, depth, maxNodes, expand nt netw depth sw), (nt, netw, depth, maxNodes, sw))
       \<in> measures [\<lambda>(nt, netw, depth, maxNodes, sw). nat (maxNodes - int (length (st_nodes (fst sw)))),
                   \<lambda>(nt, netw, depth, maxNodes, sw). length (st_queue (fst sw))]"
    by (rule expand_decreases)
qed

declare bfs.simps [simp del] lookups_of_bfs.simps [simp del]

text \<open>The definitions that a run on a concrete world unfolds.\<close>

named_theorems run

lemmas [run] = getWalletInfo_def getCachedWallet_def cache_get_def cacheWallet_def cache_put_def
  getBitcoinWalletInfo_def blockchain_info_wallet_def seen_time_def toISOString_def
  getEthereumWalletInfo_def fetch_rawaddr_def fetch_blockchair_def
  fetch_ethplorer_def issue_def CACHE_TTL_def getWalletTransactions_def getCachedTxs_def cacheTxs_def
  getBitcoinWalletTransactions_def getEthereumWalletTransactions_def normalize_tx_def
  buildWalletGraph_def expand_def analyze_transactions_def connectedAddresses_def set_add_def
  track_connection_def make_node_def make_edge_def investigateWallet_def connected_wallet_def
  bfs.simps Let_def fl_numeral fl_neg_numeral fl_zero fl_one

lemmas fixtures = world0_def wallet_body_def tx_star_def tx_pair_def net_star_def net_pair_def net_half_def
  net_late_def default_options_def

section \<open>Risk fields of fetched wallets\<close>

lemma blockchain_info_wallet_constant:
  "blockchain_info_wallet a r w = Some v \<Longrightarrow> constant_risk v"
  by (auto simp: blockchain_info_wallet_def constant_risk_def split: http.splits option.splits)

lemma getBitcoinWalletInfo_constant:
  "getBitcoinWalletInfo nt a w = (Some v, w1) \<Longrightarrow> constant_risk v"
  by (auto simp: getBitcoinWalletInfo_def constant_risk_def dest: blockchain_info_wallet_constant
           split: prod.splits http.splits option.splits)

lemma getEthereumWalletInfo_constant:
  "getEthereumWalletInfo nt a w = (Some v, w1) \<Longrightarrow> constant_risk v"
  by (auto simp: getEthereumWalletInfo_def constant_risk_def split: prod.splits http.splits option.splits)

lemma getWalletInfo_Some:
  assumes "getWalletInfo nt a netw w = (Some v, w')"
  shows "(getCachedWallet (wallet_key netw a) w = Some v \<and> w' = w) \<or>
         (getCachedWallet (wallet_key netw a) w = None \<and> constant_risk v \<and>
          (\<exists>w1. w' = cacheWallet (wallet_key netw a) v CACHE_TTL w1))"
proof (cases "getCachedWallet (wallet_key netw a) w")
  case (Some c)
  with assms show ?thesis by (simp add: getWalletInfo_def wallet_key_def)
next
  case None
  define r where "r = (if netw = ''bitcoin'' then getBitcoinWalletInfo nt a w
                       else if netw = ''ethereum'' then getEthereumWalletInfo nt a w
                       else (None, w))"
  obtain x w1 where r: "r = (x, w1)" by (cases r)
  from assms None r have x: "x = Some v" and w': "w' = cacheWallet (wallet_key netw a) v CACHE_TTL w1"
    by (auto simp: getWalletInfo_def wallet_key_def r_def[symmetric] split: option.splits)
  from r x have "constant_risk v"
    unfolding r_def
    by (auto dest: getBitcoinWalletInfo_constant getEthereumWalletInfo_constant split: if_splits)
  with None w' show ?thesis by blast
qed

lemma cache_get_constant:
  assumes "cache_constant_risk w" and "getCachedWallet key w = Some v"
  shows "constant_risk v"
proof -
  from assms(2) obtain e where "walletCache w key = Some (v, e)"
    by (auto simp: getCachedWallet_def cache_get_def split: option.splits if_splits)
  with assms(1) show ?thesis unfolding cache_constant_risk_def by blast
qed

lemma issue_walletCache: "walletCache (issue nt w) = walletCache w"
  by (simp add: issue_def)

lemma getBitcoinWalletInfo_cache:
  "getBitcoinWalletInfo nt a w = (x, w1) \<Longrightarrow> walletCache w1 = walletCache w"
  by (auto simp: getBitcoinWalletInfo_def fetch_rawaddr_def fetch_blockchair_def issue_walletCache
           split: prod.splits http.splits option.splits)

lemma getEthereumWalletInfo_cache:
  "getEthereumWalletInfo nt a w = (x, w1) \<Longrightarrow> walletCache w1 = walletCache w"
  by (auto simp: getEthereumWalletInfo_def fetch_ethplorer_def issue_walletCache
           split: prod.splits http.splits option.splits)

lemma cacheWallet_constant:
  "cache_constant_risk w \<Longrightarrow> constant_risk v \<Longrightarrow> cache_constant_risk (cacheWallet key v ttl w)"
  by (auto simp: cache_constant_risk_def cacheWallet_def cache_put_def)

lemma getWalletInfo_keeps_cache_constant:
  assumes "cache_constant_risk w" and "getWalletInfo nt a netw w = (x, w')"
  shows "cache_constant_risk w'"
proof (cases "getCachedWallet (wallet_key netw a) w")
  case (Some c)
  with assms show ?thesis by (simp add: getWalletInfo_def wallet_key_def)
next
  case None
  define r where "r = (if netw = ''bitcoin'' then getBitcoinWalletInfo nt a w
                       else if netw = ''ethereum'' then getEthereumWalletInfo nt a w
                       else (None, w))"
  obtain y w1 where r: "r = (y, w1)" by (cases r)
  from r have c1: "walletCache w1 = walletCache w"
    unfolding r_def
    by (auto dest: getBitcoinWalletInfo_cache getEthereumWalletInfo_cache split: if_splits)
  with assms(1) have k: "cache_constant_risk w1" by (simp add: cache_constant_risk_def)
  show ?thesis
  proof (cases y)
    case None': None
    with assms(2) None r k show ?thesis
      by (simp add: getWalletInfo_def wallet_key_def r_def[symmetric])
  next
    case (Some v)
    with r have "constant_risk v"
      unfolding r_def
      by (auto dest: getBitcoinWalletInfo_constant getEthereumWalletInfo_constant split: if_splits)
    with assms(2) None r k Some show ?thesis
      by (auto simp: getWalletInfo_def wallet_key_def r_def[symmetric] intro: cacheWallet_constant)
  qed
qed

text \<open>
  Claim C10. Every wallet that \<open>getWalletInfo\<close> returns has risk score 0, risk
  level safe, no labels, and the three flags false: both adapters write these
  constants, and a wallet served from the cache has them whenever the cache holds
  only wallets of this kind, which the call preserves.
\<close>

theorem fetched_wallets_have_constant_risk:
  assumes "cache_constant_risk w" and "getWalletInfo nt a netw w = (Some v, w')"
  shows "riskScore v = Num 0 \<and> riskLevel v = Safe \<and> labels v = [] \<and>
         \<not> isExchange v \<and> \<not> isMixer v \<and> \<not> isRansomware v \<and> cache_constant_risk w'"
proof -
  from getWalletInfo_Some[OF assms(2)] assms(1) have "constant_risk v"
    by (auto dest: cache_get_constant)
  with getWalletInfo_keeps_cache_constant[OF assms] show ?thesis
    by (simp add: constant_risk_def)
qed


theorem fetched_wallets_have_constant_risk_witness:
  "cache_constant_risk world0 \<and>
   (\<exists>v w'. getWalletInfo net_up ''A'' ''bitcoin'' world0 = (Some v, w') \<and>
      riskScore v = Num 0 \<and> riskLevel v = Safe \<and> labels v = [] \<and>
      \<not> isExchange v \<and> \<not> isMixer v \<and> \<not> isRansomware v \<and> cache_constant_risk w')"
proof -
  have c: "cache_constant_risk world0"
    by (simp add: cache_constant_risk_def world0_def)
  obtain v w' where g: "getWalletInfo net_up ''A'' ''bitcoin'' world0 = (Some v, w')"
    by (simp add: run world0_def net_up_def wallet_body_def)
  from fetched_wallets_have_constant_risk[OF c g] c g show ?thesis by blast
qed
section \<open>Failure of the root lookup\<close>

text \<open>
  Claim C5, as stated, fails: explorers that report the address as absent and
  explorers that cannot be reached give the same outcome, \<open>null\<close>, so the
  outcome does not tell the two causes apart.
\<close>

theorem root_failure_counterexample:
  "fst (investigateWallet net_absent ''A'' ''bitcoin'' default_options world0) = None \<and>
   fst (investigateWallet net_down ''A'' ''bitcoin'' default_options world0) = None \<and>
   investigateWallet net_absent ''A'' ''bitcoin'' default_options world0 =
   investigateWallet net_down ''A'' ''bitcoin'' default_options world0"
  by (simp add: run world0_def net_down_def net_absent_def default_options_def)

lemma getWalletInfo_fails:
  assumes "lookup_fails_everywhere nt a netw w"
  shows "fst (getWalletInfo nt a netw w) = None"
proof -
  from assms have m: "getCachedWallet (wallet_key netw a) w = None"
    by (simp add: lookup_fails_everywhere_def)
  have b: "fst (getBitcoinWalletInfo nt a w) = None" if "netw = ''bitcoin''"
  proof -
    from assms that have r: "\<not> is_ok (rawaddr nt (requests w) a 0)"
      and c: "\<forall>d. blockchair nt (requests w + 1) a \<noteq> Ok (Some d)"
      by (simp_all add: lookup_fails_everywhere_def)
    from r c show ?thesis
      by (cases "rawaddr nt (requests w) a 0"; cases "blockchair nt (requests w + 1) a")
         (auto simp: getBitcoinWalletInfo_def blockchain_info_wallet_def fetch_rawaddr_def
                     fetch_blockchair_def issue_def
               split: option.splits)
  qed
  have e: "fst (getEthereumWalletInfo nt a w) = None" if "netw = ''ethereum''"
  proof -
    from assms that have "\<not> is_ok (ethplorer nt (requests w) a)"
      by (simp add: lookup_fails_everywhere_def)
    then show ?thesis
      by (cases "ethplorer nt (requests w) a")
         (simp_all add: getEthereumWalletInfo_def fetch_ethplorer_def)
  qed
  from m b e show ?thesis
    by (auto simp: getWalletInfo_def wallet_key_def Let_def split: prod.splits option.splits)
qed

text \<open>
  Claim C5, amended. When the lookup of the root wallet fails on every provider,
  whatever the cause, \<open>investigateWallet\<close> returns \<open>null\<close>: there is no
  result object, partially populated or not, no value that tells an absent address
  from an unreachable provider, and no request follows the failed lookup.
\<close>

theorem root_failure_returns_null:
  assumes "lookup_fails_everywhere nt a netw w"
  shows "investigateWallet nt a netw options w = (None, snd (getWalletInfo nt a netw w))"
  using getWalletInfo_fails[OF assms]
  by (cases "getWalletInfo nt a netw w") (simp add: investigateWallet_def Let_def)

theorem root_failure_returns_null_witness:
  "lookup_fails_everywhere net_absent ''A'' ''bitcoin'' world0 \<and>
   lookup_fails_everywhere net_down ''A'' ''bitcoin'' world0 \<and>
   investigateWallet net_absent ''A'' ''bitcoin'' default_options world0 =
     (None, snd (getWalletInfo net_absent ''A'' ''bitcoin'' world0)) \<and>
   investigateWallet net_down ''A'' ''bitcoin'' default_options world0 =
     (None, snd (getWalletInfo net_down ''A'' ''bitcoin'' world0))"
proof -
  have h: "lookup_fails_everywhere net_absent ''A'' ''bitcoin'' world0"
    by (simp add: lookup_fails_everywhere_def getCachedWallet_def cache_get_def world0_def net_absent_def)
  have k: "lookup_fails_everywhere net_down ''A'' ''bitcoin'' world0"
    by (simp add: lookup_fails_everywhere_def getCachedWallet_def cache_get_def world0_def net_down_def)
  from root_failure_returns_null[OF h] root_failure_returns_null[OF k] h k show ?thesis by simp
qed

section \<open>The graph that the traversal builds\<close>

lemma add_connections_edges:
  "add_connections nt netw a level cs (s, w) = (s', w') \<Longrightarrow>
   st_edges s' = st_edges s @ map (\<lambda>(c, d). make_edge a c d) cs"
proof (induction cs arbitrary: s w)
  case Nil
  then show ?case by simp
next
  case (Cons c cs)
  obtain connAddr d where c: "c = (connAddr, d)" by (cases c)
  obtain s1 w1 where step:
    "(if connAddr \<notin> st_visited s then
        (case getWalletInfo nt connAddr netw w of
           (Some connWallet, w') \<Rightarrow>
             (s\<lparr>st_nodes := st_nodes s @ [make_node connAddr connWallet],
                st_visited := insert connAddr (st_visited s),
                st_queue := st_queue s @ [(connAddr, level + 1)]\<rparr>, w')
         | (None, w') \<Rightarrow> (s, w'))
      else (s, w)) = (s1, w1)"
    by (cases "(if connAddr \<notin> st_visited s then
        (case getWalletInfo nt connAddr netw w of
           (Some connWallet, w') \<Rightarrow>
             (s\<lparr>st_nodes := st_nodes s @ [make_node connAddr connWallet],
                st_visited := insert connAddr (st_visited s),
                st_queue := st_queue s @ [(connAddr, level + 1)]\<rparr>, w')
         | (None, w') \<Rightarrow> (s, w'))
      else (s, w))")
  then have e1: "st_edges s1 = st_edges s"
    by (auto split: if_splits prod.splits option.splits)
  from Cons.prems c step have
    "add_connections nt netw a level cs
       (s1\<lparr>st_edges := st_edges s1 @ [make_edge a connAddr d]\<rparr>, w1) = (s', w')"
    by simp
  from Cons.IH[OF this] e1 c show ?case by simp
qed

lemma expand_edges:
  assumes "expand nt netw depth (s, w) = (s', w')"
  shows "\<exists>rest. st_edges s' = st_edges s @ rest"
proof (cases "st_queue s")
  case Nil
  with assms show ?thesis by (simp add: expand_def)
next
  case (Cons q rest)
  obtain a level where q: "q = (a, level)" by (cases q)
  show ?thesis
  proof (cases "int level \<ge> depth")
    case True
    with assms Cons q show ?thesis by (auto simp: expand_def)
  next
    case False
    obtain txs w1 where t: "getWalletTransactions nt a netw 20 w = (txs, w1)"
      by (cases "getWalletTransactions nt a netw 20 w")
    from assms Cons q False t have
      "add_connections nt netw a level (take 10 (analyze_transactions a txs))
         (s\<lparr>st_queue := rest\<rparr>, w1) = (s', w')"
      by (simp add: expand_def)
    from add_connections_edges[OF this] show ?thesis by simp
  qed
qed

lemma bfs_edges:
  "bfs nt netw depth maxNodes sw = (s', w') \<Longrightarrow> \<exists>rest. st_edges s' = st_edges (fst sw) @ rest"
proof (induction nt netw depth maxNodes sw rule: bfs.induct)
  case (1 nt netw depth maxNodes sw)
  show ?case
  proof (cases "st_queue (fst sw) \<noteq> [] \<and> int (length (st_nodes (fst sw))) < maxNodes")
    case False
    with "1.prems" have "sw = (s', w')" by (subst (asm) bfs.simps) simp
    then show ?thesis by simp
  next
    case True
    with "1.prems" have b: "bfs nt netw depth maxNodes (expand nt netw depth sw) = (s', w')"
      by (subst (asm) bfs.simps) simp
    from "1.IH"[OF True b] obtain rest where
      r: "st_edges s' = st_edges (fst (expand nt netw depth sw)) @ rest" by blast
    obtain s w where sw: "sw = (s, w)" by (cases sw)
    obtain s1 w1 where e: "expand nt netw depth (s, w) = (s1, w1)"
      by (cases "expand nt netw depth (s, w)")
    from expand_edges[OF e] obtain rest1 where "st_edges s1 = st_edges s @ rest1" by blast
    with r sw e show ?thesis by simp
  qed
qed

text \<open>
  Claim C1, at a failing input. The root \<open>A\<close> has one transaction with three
  counterparts and \<open>maxNodes\<close> is 2: the loop is entered with one node, the three
  counterparts are added without a further test, and the graph has four nodes.
\<close>

theorem node_limit_exceeded:
  "map node_id (nodes (fst (buildWalletGraph net_star ''A'' ''bitcoin'' 2 2 world0)))
     = [''A'', ''B'', ''C'', ''D''] \<and>
   int (length (nodes (fst (buildWalletGraph net_star ''A'' ''bitcoin'' 2 2 world0)))) > 2"
  by (simp add: run fixtures bfs.simps)

text \<open>
  Claim C4, at a failing input. \<open>A\<close> and \<open>B\<close> share one transaction: expanding
  \<open>A\<close> records the edge from \<open>A\<close> to \<open>B\<close>, expanding \<open>B\<close> records the edge
  from \<open>B\<close> to \<open>A\<close>, and the pair has two edges, both marked bidirectional.
\<close>

theorem edge_per_direction:
  "map (\<lambda>e. (source e, target e, direction e)) (edges (fst (buildWalletGraph net_pair ''A'' ''bitcoin'' 2 50 world0)))
     = [(''A'', ''B'', Bidirectional), (''B'', ''A'', Bidirectional)]"
  by (simp add: run fixtures bfs.simps)

text \<open>
  Claim C3, as stated, fails: the lookup of the root \<open>A\<close> gives no wallet, and the
  build still returns a graph, with the node \<open>B\<close> and the edge from \<open>A\<close> to
  \<open>B\<close>.
\<close>

theorem root_failure_still_builds_counterexample:
  "fst (getWalletInfo net_late ''A'' ''bitcoin'' world0) = None \<and>
   map node_id (nodes (fst (buildWalletGraph net_late ''A'' ''bitcoin'' 2 50 world0))) = [''B''] \<and>
   map edge_id (edges (fst (buildWalletGraph net_late ''A'' ''bitcoin'' 2 50 world0))) = [''A-B'']"
  by (simp add: run fixtures bfs.simps)

text \<open>
  Claim C3, amended. When the lookup of the root gives no wallet, the build does not
  fail: it returns a graph, and for a positive depth and a positive \<open>maxNodes\<close>
  the traversal still reads the root's transactions and records an edge from the root
  to each of its first ten counterparts, before whatever the rest of the traversal
  adds.
\<close>

theorem build_without_root_still_explores:
  assumes "getWalletInfo nt rootAddress netw w = (None, w1)"
    and "0 < depth" and "0 < maxNodes"
  shows "\<exists>rest. edges (fst (buildWalletGraph nt rootAddress netw depth maxNodes w)) =
           map (\<lambda>(c, d). make_edge rootAddress c d)
               (take 10 (analyze_transactions rootAddress
                           (fst (getWalletTransactions nt rootAddress netw 20 w1)))) @ rest"
proof -
  define s0 where "s0 = \<lparr>st_nodes = [], st_edges = [], st_visited = {},
                          st_queue = [(rootAddress, 0 :: nat)]\<rparr>"
  obtain txs w2 where t: "getWalletTransactions nt rootAddress netw 20 w1 = (txs, w2)"
    by (cases "getWalletTransactions nt rootAddress netw 20 w1")
  obtain s1 w3 where a: "add_connections nt netw rootAddress 0
       (take 10 (analyze_transactions rootAddress txs)) (s0\<lparr>st_queue := []\<rparr>, w2) = (s1, w3)"
    by (cases "add_connections nt netw rootAddress 0
       (take 10 (analyze_transactions rootAddress txs)) (s0\<lparr>st_queue := []\<rparr>, w2)")
  from t a assms(2) have e: "expand nt netw depth (s0, w1) = (s1, w3)"
    by (simp add: expand_def s0_def)
  from add_connections_edges[OF a] have e1:
    "st_edges s1 = map (\<lambda>(c, d). make_edge rootAddress c d) (take 10 (analyze_transactions rootAddress txs))"
    by (simp add: s0_def)
  obtain s2 w4 where b: "bfs nt netw depth maxNodes (s1, w3) = (s2, w4)"
    by (cases "bfs nt netw depth maxNodes (s1, w3)")
  from assms(3) e b have b0: "bfs nt netw depth maxNodes (s0, w1) = (s2, w4)"
    by (subst bfs.simps) (simp add: s0_def)
  from bfs_edges[OF b] obtain rest where "st_edges s2 = st_edges s1 @ rest" by auto
  with e1 b0 assms(1) t show ?thesis
    by (simp add: buildWalletGraph_def s0_def)
qed

theorem build_without_root_still_explores_witness:
  "getWalletInfo net_late ''A'' ''bitcoin'' world0 = (None, world0\<lparr>requests := 2\<rparr>) \<and>
   (\<exists>rest. edges (fst (buildWalletGraph net_late ''A'' ''bitcoin'' 2 50 world0)) =
           map (\<lambda>(c, d). make_edge ''A'' c d)
               (take 10 (analyze_transactions ''A''
                           (fst (getWalletTransactions net_late ''A'' ''bitcoin'' 20 (world0\<lparr>requests := 2\<rparr>))))) @ rest)"
proof -
  have g: "getWalletInfo net_late ''A'' ''bitcoin'' world0 = (None, world0\<lparr>requests := 2\<rparr>)"
    by (simp add: run fixtures bfs.simps)
  from build_without_root_still_explores[OF g, of 2 50] g show ?thesis by simp
qed

section \<open>Edges and the node set\<close>

lemma add_connections_cons:
  "add_connections nt netw a level (c # rest) sw =
   add_connections nt netw a level rest (add_connections nt netw a level [c] sw)"
  by (cases c; cases sw) (simp add: Let_def split: prod.splits)

lemma failures_append:
  "failures nt netw (xs @ ys) = failures nt netw xs @ failures nt netw ys"
  by (simp add: failures_def)

lemma closed_upto_mono: "closed_upto F s \<Longrightarrow> F \<subseteq> G \<Longrightarrow> closed_upto G s"
  unfolding closed_upto_def by blast

lemma failures_Cons:
  "set (failures nt netw (p # ls)) = set (failures nt netw [p]) \<union> set (failures nt netw ls)"
  using failures_append[of nt netw "[p]" ls] by simp

lemma add_connection_closed:
  assumes step: "add_connections nt netw a level [(connAddr, d)] (s, w) = (s', w')"
    and inv: "closed_upto F s" and a: "a \<in> st_visited s \<union> F"
  shows "closed_upto (F \<union> set (failures nt netw
                               (if connAddr \<notin> st_visited s then [(connAddr, w)] else []))) s' \<and>
         st_visited s \<subseteq> st_visited s'"
proof (cases "connAddr \<in> st_visited s")
  case True
  with step have s': "s' = s\<lparr>st_edges := st_edges s @ [make_edge a connAddr d]\<rparr>"
    by auto
  from inv a True show ?thesis
    unfolding s' by (auto simp: closed_upto_def make_edge_def failures_def)
next
  case False
  obtain x w1 where g: "getWalletInfo nt connAddr netw w = (x, w1)"
    by (cases "getWalletInfo nt connAddr netw w")
  show ?thesis
  proof (cases x)
    case None
    with step False g have s': "s' = s\<lparr>st_edges := st_edges s @ [make_edge a connAddr d]\<rparr>"
      by auto
    from None g False have f: "failures nt netw
        (if connAddr \<notin> st_visited s then [(connAddr, w)] else []) = [connAddr]"
      by (simp add: failures_def)
    from inv a show ?thesis
      unfolding s' f by (auto simp: closed_upto_def make_edge_def)
  next
    case (Some cw)
    with step False g have s': "s' = s\<lparr>st_nodes := st_nodes s @ [make_node connAddr cw],
               st_visited := insert connAddr (st_visited s),
               st_queue := st_queue s @ [(connAddr, level + 1)],
               st_edges := st_edges s @ [make_edge a connAddr d]\<rparr>"
      by auto
    from Some g False have f: "failures nt netw
        (if connAddr \<notin> st_visited s then [(connAddr, w)] else []) = []"
      by (simp add: failures_def)
    from inv a show ?thesis
      unfolding s' f by (auto simp: closed_upto_def make_edge_def make_node_def)
  qed
qed

lemma add_connections_closed:
  "add_connections nt netw a level cs (s, w) = (s', w') \<Longrightarrow> closed_upto F s \<Longrightarrow>
   a \<in> st_visited s \<union> F \<Longrightarrow>
   closed_upto (F \<union> set (failures nt netw (lookups_of_connections nt netw a level cs (s, w)))) s'"
proof (induction cs arbitrary: s w F)
  case Nil
  then show ?case by (simp add: failures_def)
next
  case (Cons c cs)
  obtain connAddr d where c: "c = (connAddr, d)" by (cases c)
  obtain s1 w1 where one: "add_connections nt netw a level [(connAddr, d)] (s, w) = (s1, w1)"
    by (cases "add_connections nt netw a level [(connAddr, d)] (s, w)")
  with Cons.prems(1) have rest: "add_connections nt netw a level cs (s1, w1) = (s', w')"
    by (simp only: c add_connections_cons[of nt netw a level "(connAddr, d)" cs])
  let ?L1 = "if connAddr \<notin> st_visited s then [(connAddr, w)] else []"
  from add_connection_closed[OF one Cons.prems(2,3)] have
    inv1: "closed_upto (F \<union> set (failures nt netw ?L1)) s1"
    and sub: "st_visited s \<subseteq> st_visited s1" by simp_all
  from Cons.prems(3) sub have "a \<in> st_visited s1 \<union> (F \<union> set (failures nt netw ?L1))" by auto
  from Cons.IH[OF rest inv1 this] have
    "closed_upto (F \<union> set (failures nt netw ?L1) \<union>
        set (failures nt netw (lookups_of_connections nt netw a level cs (s1, w1)))) s'" .
  moreover have "lookups_of_connections nt netw a level (c # cs) (s, w) =
      ?L1 @ lookups_of_connections nt netw a level cs (s1, w1)"
    unfolding c lookups_of_connections.simps one ..
  ultimately show ?case by (simp only: failures_append set_append Un_assoc)
qed

lemma expand_closed:
  assumes e: "expand nt netw depth (s, w) = (s', w')" and inv: "closed_upto F s"
  shows "closed_upto (F \<union> set (failures nt netw (lookups_of_expand nt netw depth (s, w)))) s'"
proof (cases "st_queue s")
  case Nil
  with e inv show ?thesis by (simp add: expand_def lookups_of_expand_def failures_def)
next
  case (Cons q rest)
  obtain a level where q: "q = (a, level)" by (cases q)
  from inv Cons q have a: "a \<in> st_visited s \<union> F" and inv': "closed_upto F (s\<lparr>st_queue := rest\<rparr>)"
    by (auto simp: closed_upto_def)
  show ?thesis
  proof (cases "int level \<ge> depth")
    case True
    with e Cons q inv' show ?thesis
      by (auto simp: expand_def lookups_of_expand_def failures_def)
  next
    case False
    obtain txs w1 where t: "getWalletTransactions nt a netw 20 w = (txs, w1)"
      by (cases "getWalletTransactions nt a netw 20 w")
    from e Cons q False t have
      "add_connections nt netw a level (take 10 (analyze_transactions a txs))
         (s\<lparr>st_queue := rest\<rparr>, w1) = (s', w')"
      by (simp add: expand_def)
    from add_connections_closed[OF this inv'] a Cons q False t show ?thesis
      by (simp add: lookups_of_expand_def)
  qed
qed

lemma bfs_closed:
  "bfs nt netw depth maxNodes sw = (s', w') \<Longrightarrow> closed_upto F (fst sw) \<Longrightarrow>
   closed_upto (F \<union> set (failures nt netw (lookups_of_bfs nt netw depth maxNodes sw))) s'"
proof (induction nt netw depth maxNodes sw arbitrary: F rule: bfs.induct)
  case (1 nt netw depth maxNodes sw)
  show ?case
  proof (cases "st_queue (fst sw) \<noteq> [] \<and> int (length (st_nodes (fst sw))) < maxNodes")
    case False
    with "1.prems"(1) have "sw = (s', w')" by (subst (asm) bfs.simps) simp
    moreover from False have "lookups_of_bfs nt netw depth maxNodes sw = []"
      by (subst lookups_of_bfs.simps) auto
    ultimately show ?thesis using "1.prems"(2) by (simp add: failures_def)
  next
    case True
    with "1.prems"(1) have b: "bfs nt netw depth maxNodes (expand nt netw depth sw) = (s', w')"
      by (subst (asm) bfs.simps) simp
    obtain s w where sw: "sw = (s, w)" by (cases sw)
    obtain s1 w1 where e: "expand nt netw depth (s, w) = (s1, w1)"
      by (cases "expand nt netw depth (s, w)")
    from True sw e have l: "lookups_of_bfs nt netw depth maxNodes (s, w) =
        lookups_of_expand nt netw depth (s, w) @
        lookups_of_bfs nt netw depth maxNodes (s1, w1)"
      by (subst lookups_of_bfs.simps) simp
    from "1.prems"(2) sw have "closed_upto F s" by simp
    from expand_closed[OF e this] have
      "closed_upto (F \<union> set (failures nt netw (lookups_of_expand nt netw depth (s, w)))) s1" .
    with "1.IH"[OF True b, of "F \<union> set (failures nt netw (lookups_of_expand nt netw depth (s, w)))"]
      sw e show ?thesis
      by (simp add: l failures_append Un_assoc)
  qed
qed

text \<open>
  Claim C2, as stated, fails: the lookup of the counterpart \<open>B\<close> gives no wallet,
  so \<open>B\<close> is not a node, and the edge from \<open>A\<close> to \<open>B\<close> is recorded all the
  same.
\<close>

theorem dangling_edge_counterexample:
  "map node_id (nodes (fst (buildWalletGraph net_half ''A'' ''bitcoin'' 2 50 world0))) = [''A''] \<and>
   map (\<lambda>e. (source e, target e)) (edges (fst (buildWalletGraph net_half ''A'' ''bitcoin'' 2 50 world0)))
     = [(''A'', ''B'')]"
  by (simp add: run fixtures)

text \<open>
  Claim C2, amended. Each end of every edge of the returned graph is the address of
  one of its nodes or an address whose wallet lookup failed during the build (the
  root, or a counterpart). So in a run in which no wallet lookup fails, both ends of
  every edge are addresses of nodes.
\<close>

theorem edges_join_nodes_or_failed_lookups:
  "\<forall>e \<in> set (edges (fst (buildWalletGraph nt rootAddress netw depth maxNodes w))).
     source e \<in> node_id ` set (nodes (fst (buildWalletGraph nt rootAddress netw depth maxNodes w))) \<union>
                set (failed_lookups nt rootAddress netw depth maxNodes w) \<and>
     target e \<in> node_id ` set (nodes (fst (buildWalletGraph nt rootAddress netw depth maxNodes w))) \<union>
                set (failed_lookups nt rootAddress netw depth maxNodes w)"
proof -
  obtain x w1 where g: "getWalletInfo nt rootAddress netw w = (x, w1)"
    by (cases "getWalletInfo nt rootAddress netw w")
  define s0 where "s0 = \<lparr>st_nodes = [], st_edges = [], st_visited = {},
                          st_queue = [(rootAddress, 0 :: nat)]\<rparr>"
  define s1 where "s1 = (case x of
      Some rw \<Rightarrow> s0\<lparr>st_nodes := [make_node rootAddress rw], st_visited := {rootAddress}\<rparr>
    | None \<Rightarrow> s0)"
  define F where "F = set (failures nt netw [(rootAddress, w)])"
  obtain s2 w2 where b: "bfs nt netw depth maxNodes (s1, w1) = (s2, w2)"
    by (cases "bfs nt netw depth maxNodes (s1, w1)")
  have "closed_upto F s1"
    using g by (cases x) (simp_all add: closed_upto_def s1_def s0_def F_def failures_def make_node_def)
  from bfs_closed[OF b] this have
    "closed_upto (F \<union> set (failures nt netw (lookups_of_bfs nt netw depth maxNodes (s1, w1)))) s2"
    by simp
  moreover have "set (failed_lookups nt rootAddress netw depth maxNodes w) =
      F \<union> set (failures nt netw (lookups_of_bfs nt netw depth maxNodes (s1, w1)))"
  proof -
    from g have lk: "lookups nt rootAddress netw depth maxNodes w =
        (rootAddress, w) # lookups_of_bfs nt netw depth maxNodes (s1, w1)"
      by (cases x) (simp_all add: lookups_def s1_def s0_def Let_def)
    show ?thesis unfolding failed_lookups_def lk F_def by (rule failures_Cons)
  qed
  moreover from g b have "fst (buildWalletGraph nt rootAddress netw depth maxNodes w) =
      \<lparr>nodes = st_nodes s2, edges = st_edges s2, clusters = []\<rparr>"
    by (cases x) (simp_all add: buildWalletGraph_def s1_def s0_def Let_def)
  ultimately show ?thesis by (auto simp: closed_upto_def)
qed

theorem edges_join_nodes_or_failed_lookups_witness:
  "failed_lookups net_half ''A'' ''bitcoin'' 2 50 world0 = [''B''] \<and>
   map node_id (nodes (fst (buildWalletGraph net_half ''A'' ''bitcoin'' 2 50 world0))) = [''A''] \<and>
   map edge_id (edges (fst (buildWalletGraph net_half ''A'' ''bitcoin'' 2 50 world0))) = [''A-B''] \<and>
   list_all (\<lambda>e. source e \<in> {''A'', ''B''} \<and> target e \<in> {''A'', ''B''})
            (edges (fst (buildWalletGraph net_half ''A'' ''bitcoin'' 2 50 world0))) \<and>
   failed_lookups net_pair ''A'' ''bitcoin'' 2 50 world0 = [] \<and>
   map edge_id (edges (fst (buildWalletGraph net_pair ''A'' ''bitcoin'' 2 50 world0))) = [''A-B'', ''B-A''] \<and>
   list_all (\<lambda>e. source e \<in> node_id ` set (nodes (fst (buildWalletGraph net_pair ''A'' ''bitcoin'' 2 50 world0))) \<and>
                 target e \<in> node_id ` set (nodes (fst (buildWalletGraph net_pair ''A'' ''bitcoin'' 2 50 world0))))
            (edges (fst (buildWalletGraph net_pair ''A'' ''bitcoin'' 2 50 world0)))"
proof -
  have f: "failed_lookups net_half ''A'' ''bitcoin'' 2 50 world0 = [''B'']"
    by (simp add: failed_lookups_def lookups_def failures_def lookups_of_bfs.simps
                  lookups_of_expand_def run fixtures)
  have n: "map node_id (nodes (fst (buildWalletGraph net_half ''A'' ''bitcoin'' 2 50 world0))) = [''A'']"
    and e: "map edge_id (edges (fst (buildWalletGraph net_half ''A'' ''bitcoin'' 2 50 world0))) = [''A-B'']"
    by (simp_all add: run fixtures)
  from n have n': "node_id ` set (nodes (fst (buildWalletGraph net_half ''A'' ''bitcoin'' 2 50 world0))) = {''A''}"
    by (metis list.set_map list.simps(15) list.set(1))
  have g: "failed_lookups net_pair ''A'' ''bitcoin'' 2 50 world0 = []"
    by (simp add: failed_lookups_def lookups_def failures_def lookups_of_bfs.simps
                  lookups_of_expand_def run fixtures)
  have e2: "map edge_id (edges (fst (buildWalletGraph net_pair ''A'' ''bitcoin'' 2 50 world0))) = [''A-B'', ''B-A'']"
    by (simp add: run fixtures)
  from edges_join_nodes_or_failed_lookups[of net_half "''A''" "''bitcoin''" 2 50 world0]
  have h: "list_all (\<lambda>e. source e \<in> {''A'', ''B''} \<and> target e \<in> {''A'', ''B''})
            (edges (fst (buildWalletGraph net_half ''A'' ''bitcoin'' 2 50 world0)))"
    unfolding f n' by (auto simp: list_all_iff)
  from edges_join_nodes_or_failed_lookups[of net_pair "''A''" "''bitcoin''" 2 50 world0]
  have p: "list_all (\<lambda>e. source e \<in> node_id ` set (nodes (fst (buildWalletGraph net_pair ''A'' ''bitcoin'' 2 50 world0))) \<and>
                 target e \<in> node_id ` set (nodes (fst (buildWalletGraph net_pair ''A'' ''bitcoin'' 2 50 world0))))
            (edges (fst (buildWalletGraph net_pair ''A'' ''bitcoin'' 2 50 world0)))"
    unfolding g by (simp add: list_all_iff)
  from f n e h g e2 p show ?thesis by simp
qed


end
